theory Spec2Isabelle
  imports Complex_Main "HOL-Library.Word"
begin

unbundle bit_operations_syntax

section \<open>The element type\<close>

text \<open>
  Every class of the repository fixes \<^verbatim>\<open>typedef ... elt_type\<close> (\<^verbatim>\<open>float\<close> or
  \<^verbatim>\<open>double\<close>). The operations below are polymorphic in the element type \<open>'a\<close>; they
  only use the symbols \<open>0\<close>, \<open>1\<close>, \<open>+\<close>, \<open>-\<close>, \<open>*\<close>, \<open>/\<close> of the syntactic type classes, with
  no algebraic law, so whatever is proved for every \<open>'a\<close> holds for the rounding
  arithmetic of the hardware as well. The square root of \<^verbatim>\<open><cmath>\<close> and the approximate
  reciprocal square root of the SSE unit are parameters \<open>fsqrt\<close> and \<open>frsqrt\<close>.

  For the evaluation of concrete inputs the type \<open>fp\<close> gives the IEEE 754 special
  values (the two infinities and NaN) next to the finite values. Finite arithmetic is
  exact in \<open>fp\<close> and there is one zero, so it agrees with the hardware only where the
  hardware result is exact. It is used below at such inputs only: every operand and
  every intermediate and final value is a small integer, a quotient by a power of two,
  an infinity or NaN. No general law of the arithmetic of \<open>fp\<close> is used.
\<close>

datatype fp = Fin real | PInf | NInf | NaN

fun fp_add :: "fp \<Rightarrow> fp \<Rightarrow> fp" where
  "fp_add NaN _ = NaN"
| "fp_add _ NaN = NaN"
| "fp_add PInf NInf = NaN"
| "fp_add NInf PInf = NaN"
| "fp_add PInf _ = PInf"
| "fp_add _ PInf = PInf"
| "fp_add NInf _ = NInf"
| "fp_add _ NInf = NInf"
| "fp_add (Fin a) (Fin b) = Fin (a + b)"

fun fp_neg :: "fp \<Rightarrow> fp" where
  "fp_neg (Fin a) = Fin (- a)"
| "fp_neg PInf = NInf"
| "fp_neg NInf = PInf"
| "fp_neg NaN = NaN"

definition fp_sub :: "fp \<Rightarrow> fp \<Rightarrow> fp" where
  "fp_sub a b = fp_add a (fp_neg b)"

text \<open>An infinity times or divided by a finite value: the sign rule, and NaN at zero
  for the product.\<close>

definition signed_inf :: "bool \<Rightarrow> fp" where
  "signed_inf negative = (if negative then NInf else PInf)"

fun fp_mul :: "fp \<Rightarrow> fp \<Rightarrow> fp" where
  "fp_mul NaN _ = NaN"
| "fp_mul _ NaN = NaN"
| "fp_mul (Fin a) (Fin b) = Fin (a * b)"
| "fp_mul (Fin a) PInf = (if a = 0 then NaN else signed_inf (a < 0))"
| "fp_mul (Fin a) NInf = (if a = 0 then NaN else signed_inf (0 < a))"
| "fp_mul PInf (Fin b) = (if b = 0 then NaN else signed_inf (b < 0))"
| "fp_mul NInf (Fin b) = (if b = 0 then NaN else signed_inf (0 < b))"
| "fp_mul PInf PInf = PInf"
| "fp_mul PInf NInf = NInf"
| "fp_mul NInf PInf = NInf"
| "fp_mul NInf NInf = PInf"

fun fp_div :: "fp \<Rightarrow> fp \<Rightarrow> fp" where
  "fp_div NaN _ = NaN"
| "fp_div _ NaN = NaN"
| "fp_div (Fin a) (Fin b) =
     (if b = 0 then (if a = 0 then NaN else signed_inf (a < 0)) else Fin (a / b))"
| "fp_div (Fin a) PInf = Fin 0"
| "fp_div (Fin a) NInf = Fin 0"
| "fp_div PInf (Fin b) = signed_inf (b < 0)"
| "fp_div NInf (Fin b) = signed_inf (0 \<le> b)"
| "fp_div PInf PInf = NaN"
| "fp_div PInf NInf = NaN"
| "fp_div NInf PInf = NaN"
| "fp_div NInf NInf = NaN"

fun fp_sqrt :: "fp \<Rightarrow> fp" where
  "fp_sqrt (Fin a) = (if a < 0 then NaN else Fin (sqrt a))"
| "fp_sqrt PInf = PInf"
| "fp_sqrt NInf = NaN"
| "fp_sqrt NaN = NaN"

definition fp_rsqrt :: "fp \<Rightarrow> fp" where
  "fp_rsqrt a = fp_div (Fin 1) (fp_sqrt a)"

instantiation fp :: "{zero, one, plus, minus, times, inverse}"
begin

definition zero_fp :: fp where
  "zero_fp = Fin 0"

definition one_fp :: fp where
  "one_fp = Fin 1"

definition plus_fp :: "fp \<Rightarrow> fp \<Rightarrow> fp" where
  "plus_fp = fp_add"

definition minus_fp :: "fp \<Rightarrow> fp \<Rightarrow> fp" where
  "minus_fp = fp_sub"

definition times_fp :: "fp \<Rightarrow> fp \<Rightarrow> fp" where
  "times_fp = fp_mul"

definition divide_fp :: "fp \<Rightarrow> fp \<Rightarrow> fp" where
  "divide_fp = fp_div"

definition inverse_fp :: "fp \<Rightarrow> fp" where
  "inverse_fp a = fp_div (Fin 1) a"

instance ..

end


section \<open>Registers and intrinsics\<close>

text \<open>
  \<^verbatim>\<open>__m128\<close> holds four single-precision lanes, \<^verbatim>\<open>__m256d\<close> four double-precision
  lanes and \<^verbatim>\<open>__m128d\<close> two; lane 0 is the lowest. The intrinsics follow the operation
  sections of the Intel Intrinsics Guide, lane by lane.
\<close>

record 'a m128 =
  f0 :: 'a
  f1 :: 'a
  f2 :: 'a
  f3 :: 'a

record 'a m256d =
  d0 :: 'a
  d1 :: 'a
  d2 :: 'a
  d3 :: 'a

record 'a m128d =
  lo :: 'a
  hi :: 'a

text \<open>\<^verbatim>\<open>_MM_SHUFFLE(z, y, x, w) = (z << 6) | (y << 4) | (x << 2) | w\<close>.\<close>

definition MM_SHUFFLE :: "8 word \<Rightarrow> 8 word \<Rightarrow> 8 word \<Rightarrow> 8 word \<Rightarrow> 8 word" where
  "MM_SHUFFLE fp3 fp2 fp1 fp0 = push_bit 6 fp3 OR push_bit 4 fp2 OR push_bit 2 fp1 OR fp0"

text \<open>The two-bit field of the control byte that starts at bit \<open>n\<close>.\<close>

definition control :: "8 word \<Rightarrow> nat \<Rightarrow> 8 word" where
  "control imm8 n = drop_bit n imm8 AND 3"

subsection \<open>SSE, single precision\<close>

definition mm_setzero_ps :: "('a::zero) m128" where
  "mm_setzero_ps = \<lparr>f0 = 0, f1 = 0, f2 = 0, f3 = 0\<rparr>"

text \<open>\<^verbatim>\<open>_mm_set_ps(e3, e2, e1, e0)\<close>: the last argument is lane 0.\<close>

definition mm_set_ps :: "'a \<Rightarrow> 'a \<Rightarrow> 'a \<Rightarrow> 'a \<Rightarrow> 'a m128" where
  "mm_set_ps e3 e2 e1 e0 = \<lparr>f0 = e0, f1 = e1, f2 = e2, f3 = e3\<rparr>"

definition mm_set1_ps :: "'a \<Rightarrow> 'a m128" where
  "mm_set1_ps a = \<lparr>f0 = a, f1 = a, f2 = a, f3 = a\<rparr>"

definition mm_add_ps :: "('a::plus) m128 \<Rightarrow> 'a m128 \<Rightarrow> 'a m128" where
  "mm_add_ps a b = \<lparr>f0 = f0 a + f0 b, f1 = f1 a + f1 b, f2 = f2 a + f2 b, f3 = f3 a + f3 b\<rparr>"

definition mm_sub_ps :: "('a::minus) m128 \<Rightarrow> 'a m128 \<Rightarrow> 'a m128" where
  "mm_sub_ps a b = \<lparr>f0 = f0 a - f0 b, f1 = f1 a - f1 b, f2 = f2 a - f2 b, f3 = f3 a - f3 b\<rparr>"

definition mm_mul_ps :: "('a::times) m128 \<Rightarrow> 'a m128 \<Rightarrow> 'a m128" where
  "mm_mul_ps a b = \<lparr>f0 = f0 a * f0 b, f1 = f1 a * f1 b, f2 = f2 a * f2 b, f3 = f3 a * f3 b\<rparr>"

definition mm_div_ps :: "('a::inverse) m128 \<Rightarrow> 'a m128 \<Rightarrow> 'a m128" where
  "mm_div_ps a b = \<lparr>f0 = f0 a / f0 b, f1 = f1 a / f1 b, f2 = f2 a / f2 b, f3 = f3 a / f3 b\<rparr>"

definition select4_ps :: "'a m128 \<Rightarrow> 8 word \<Rightarrow> 'a" where
  "select4_ps src c = (if c = 0 then f0 src else if c = 1 then f1 src
                       else if c = 2 then f2 src else f3 src)"

text \<open>\<^verbatim>\<open>_mm_shuffle_ps(a, b, imm8)\<close>: the two low lanes are picked from \<open>a\<close>, the two
  high lanes from \<open>b\<close>.\<close>

definition mm_shuffle_ps :: "'a m128 \<Rightarrow> 'a m128 \<Rightarrow> 8 word \<Rightarrow> 'a m128" where
  "mm_shuffle_ps a b imm8 =
     \<lparr>f0 = select4_ps a (control imm8 0), f1 = select4_ps a (control imm8 2),
      f2 = select4_ps b (control imm8 4), f3 = select4_ps b (control imm8 6)\<rparr>"

text \<open>\<^verbatim>\<open>_mm_dp_ps(a, b, imm8)\<close>: bits 4 to 7 of the mask choose the lanes that are
  multiplied (the others count as 0), the four terms are added as
  \<open>(t3 + t2) + (t1 + t0)\<close>, and bits 0 to 3 choose the lanes that receive the sum (the
  others receive 0).\<close>

definition mm_dp_ps :: "('a::{zero,plus,times}) m128 \<Rightarrow> 'a m128 \<Rightarrow> 8 word \<Rightarrow> 'a m128" where
  "mm_dp_ps a b imm8 =
     (let t0 = (if bit imm8 4 then f0 a * f0 b else 0);
          t1 = (if bit imm8 5 then f1 a * f1 b else 0);
          t2 = (if bit imm8 6 then f2 a * f2 b else 0);
          t3 = (if bit imm8 7 then f3 a * f3 b else 0);
          sum = (t3 + t2) + (t1 + t0)
      in \<lparr>f0 = (if bit imm8 0 then sum else 0), f1 = (if bit imm8 1 then sum else 0),
          f2 = (if bit imm8 2 then sum else 0), f3 = (if bit imm8 3 then sum else 0)\<rparr>)"

definition mm_cvtss_f32 :: "'a m128 \<Rightarrow> 'a" where
  "mm_cvtss_f32 a = f0 a"

text \<open>\<^verbatim>\<open>_mm_sqrt_ss\<close> and \<^verbatim>\<open>_mm_rsqrt_ss\<close> work on lane 0 and copy the upper lanes;
  \<^verbatim>\<open>_mm_rsqrt_ps\<close> works on every lane.\<close>

definition mm_sqrt_ss :: "('a \<Rightarrow> 'a) \<Rightarrow> 'a m128 \<Rightarrow> 'a m128" where
  "mm_sqrt_ss fsqrt a = a\<lparr>f0 := fsqrt (f0 a)\<rparr>"

definition mm_rsqrt_ss :: "('a \<Rightarrow> 'a) \<Rightarrow> 'a m128 \<Rightarrow> 'a m128" where
  "mm_rsqrt_ss frsqrt a = a\<lparr>f0 := frsqrt (f0 a)\<rparr>"

definition mm_rsqrt_ps :: "('a \<Rightarrow> 'a) \<Rightarrow> 'a m128 \<Rightarrow> 'a m128" where
  "mm_rsqrt_ps frsqrt a =
     \<lparr>f0 = frsqrt (f0 a), f1 = frsqrt (f1 a), f2 = frsqrt (f2 a), f3 = frsqrt (f3 a)\<rparr>"

subsection \<open>AVX, double precision\<close>

definition mm256_setzero_pd :: "('a::zero) m256d" where
  "mm256_setzero_pd = \<lparr>d0 = 0, d1 = 0, d2 = 0, d3 = 0\<rparr>"

definition mm256_set_pd :: "'a \<Rightarrow> 'a \<Rightarrow> 'a \<Rightarrow> 'a \<Rightarrow> 'a m256d" where
  "mm256_set_pd e3 e2 e1 e0 = \<lparr>d0 = e0, d1 = e1, d2 = e2, d3 = e3\<rparr>"

definition mm256_set1_pd :: "'a \<Rightarrow> 'a m256d" where
  "mm256_set1_pd a = \<lparr>d0 = a, d1 = a, d2 = a, d3 = a\<rparr>"

definition mm256_add_pd :: "('a::plus) m256d \<Rightarrow> 'a m256d \<Rightarrow> 'a m256d" where
  "mm256_add_pd a b = \<lparr>d0 = d0 a + d0 b, d1 = d1 a + d1 b, d2 = d2 a + d2 b, d3 = d3 a + d3 b\<rparr>"

definition mm256_sub_pd :: "('a::minus) m256d \<Rightarrow> 'a m256d \<Rightarrow> 'a m256d" where
  "mm256_sub_pd a b = \<lparr>d0 = d0 a - d0 b, d1 = d1 a - d1 b, d2 = d2 a - d2 b, d3 = d3 a - d3 b\<rparr>"

definition mm256_mul_pd :: "('a::times) m256d \<Rightarrow> 'a m256d \<Rightarrow> 'a m256d" where
  "mm256_mul_pd a b = \<lparr>d0 = d0 a * d0 b, d1 = d1 a * d1 b, d2 = d2 a * d2 b, d3 = d3 a * d3 b\<rparr>"

definition mm256_div_pd :: "('a::inverse) m256d \<Rightarrow> 'a m256d \<Rightarrow> 'a m256d" where
  "mm256_div_pd a b = \<lparr>d0 = d0 a / d0 b, d1 = d1 a / d1 b, d2 = d2 a / d2 b, d3 = d3 a / d3 b\<rparr>"

definition select4_pd :: "'a m256d \<Rightarrow> 8 word \<Rightarrow> 'a" where
  "select4_pd src c = (if c = 0 then d0 src else if c = 1 then d1 src
                       else if c = 2 then d2 src else d3 src)"

text \<open>\<^verbatim>\<open>_mm256_permute4x64_pd(a, imm8)\<close>: every lane is picked from \<open>a\<close>.\<close>

definition mm256_permute4x64_pd :: "'a m256d \<Rightarrow> 8 word \<Rightarrow> 'a m256d" where
  "mm256_permute4x64_pd a imm8 =
     \<lparr>d0 = select4_pd a (control imm8 0), d1 = select4_pd a (control imm8 2),
      d2 = select4_pd a (control imm8 4), d3 = select4_pd a (control imm8 6)\<rparr>"

text \<open>\<^verbatim>\<open>_mm256_hadd_pd(a, b)\<close>: within each 128-bit half, the pair of \<open>a\<close> is added into
  the low lane and the pair of \<open>b\<close> into the high lane.\<close>

definition mm256_hadd_pd :: "('a::plus) m256d \<Rightarrow> 'a m256d \<Rightarrow> 'a m256d" where
  "mm256_hadd_pd a b =
     \<lparr>d0 = d1 a + d0 a, d1 = d1 b + d0 b, d2 = d3 a + d2 a, d3 = d3 b + d2 b\<rparr>"

text \<open>\<^verbatim>\<open>_mm256_extractf128_pd(a, imm8)\<close>: bit 0 of \<open>imm8\<close> chooses the half.\<close>

definition mm256_extractf128_pd :: "'a m256d \<Rightarrow> 8 word \<Rightarrow> 'a m128d" where
  "mm256_extractf128_pd a imm8 =
     (if bit imm8 0 then \<lparr>lo = d2 a, hi = d3 a\<rparr> else \<lparr>lo = d0 a, hi = d1 a\<rparr>)"

definition mm256_castpd256_pd128 :: "'a m256d \<Rightarrow> 'a m128d" where
  "mm256_castpd256_pd128 a = \<lparr>lo = d0 a, hi = d1 a\<rparr>"

definition mm_add_pd :: "('a::plus) m128d \<Rightarrow> 'a m128d \<Rightarrow> 'a m128d" where
  "mm_add_pd a b = \<lparr>lo = lo a + lo b, hi = hi a + hi b\<rparr>"

definition mm_sqrt_pd :: "('a \<Rightarrow> 'a) \<Rightarrow> 'a m128d \<Rightarrow> 'a m128d" where
  "mm_sqrt_pd fsqrt a = \<lparr>lo = fsqrt (lo a), hi = fsqrt (hi a)\<rparr>"

definition mm_cvtsd_f64 :: "'a m128d \<Rightarrow> 'a" where
  "mm_cvtsd_f64 a = lo a"


section \<open>Streams\<close>

text \<open>
  \<^verbatim>\<open>std::cerr\<close> is the list of the lines written to it. An input stream is the list of
  the tokens still to be read, each one either the number it parses to or \<open>None\<close> when
  it is not a number, and the fail bit. \<^verbatim>\<open>input >> value\<close> does nothing on a failed
  stream, fails without touching \<open>value\<close> at the end of the input, and stores zero and
  fails at a token that is not a number.
\<close>

definition bad_use_message :: string where
  "bad_use_message = ''Error! Bad use of comma initializer. Do not mess up the code! '' @
     ''Assign values to vector using operator<<...''"

definition too_many_message :: string where
  "too_many_message = ''Error! Too many arguments have been passed to comma initializer '' @
     ''(see operator<<, vector3d_simd)...''"

record 'a istream =
  tokens :: "'a option list"
  failbit :: bool

definition istream_extract :: "('a::zero) istream \<Rightarrow> 'a \<Rightarrow> 'a istream \<times> 'a" where
  "istream_extract input val =
     (if failbit input then (input, val)
      else case tokens input of
             [] \<Rightarrow> (input\<lparr>failbit := True\<rparr>, val)
           | None # rest \<Rightarrow> (input\<lparr>failbit := True\<rparr>, 0)
           | Some a # rest \<Rightarrow> (input\<lparr>tokens := rest\<rparr>, a))"

section \<open>The scalar class \<^verbatim>\<open>vector3_reg\<close>\<close>

record 'a vector3_reg =
  reg_x :: 'a
  reg_y :: 'a
  reg_z :: 'a
  reg_been_inserted :: "8 word"

definition vector3_reg_default :: "('a::zero) vector3_reg" where
  "vector3_reg_default = \<lparr>reg_x = 0, reg_y = 0, reg_z = 0, reg_been_inserted = 0\<rparr>"

definition vector3_reg_xyz :: "'a \<Rightarrow> 'a \<Rightarrow> 'a \<Rightarrow> 'a vector3_reg" where
  "vector3_reg_xyz x y z = \<lparr>reg_x = x, reg_y = y, reg_z = z, reg_been_inserted = 0\<rparr>"

definition vector3_reg_copy :: "'a vector3_reg \<Rightarrow> 'a vector3_reg" where
  "vector3_reg_copy other =
     \<lparr>reg_x = reg_x other, reg_y = reg_y other, reg_z = reg_z other, reg_been_inserted = 0\<rparr>"

definition vector3_reg_op_add :: "('a::plus) vector3_reg \<Rightarrow> 'a vector3_reg \<Rightarrow> 'a vector3_reg" where
  "vector3_reg_op_add this other =
     vector3_reg_xyz (reg_x this + reg_x other) (reg_y this + reg_y other) (reg_z this + reg_z other)"

definition vector3_reg_op_sub :: "('a::minus) vector3_reg \<Rightarrow> 'a vector3_reg \<Rightarrow> 'a vector3_reg" where
  "vector3_reg_op_sub this other =
     vector3_reg_xyz (reg_x this - reg_x other) (reg_y this - reg_y other) (reg_z this - reg_z other)"

definition vector3_reg_op_mul :: "('a::times) vector3_reg \<Rightarrow> 'a vector3_reg \<Rightarrow> 'a vector3_reg" where
  "vector3_reg_op_mul this other =
     vector3_reg_xyz (reg_x this * reg_x other) (reg_y this * reg_y other) (reg_z this * reg_z other)"

definition vector3_reg_op_div :: "('a::inverse) vector3_reg \<Rightarrow> 'a vector3_reg \<Rightarrow> 'a vector3_reg" where
  "vector3_reg_op_div this other =
     vector3_reg_xyz (reg_x this / reg_x other) (reg_y this / reg_y other) (reg_z this / reg_z other)"

definition vector3_reg_op_div_scalar :: "('a::inverse) vector3_reg \<Rightarrow> 'a \<Rightarrow> 'a vector3_reg" where
  "vector3_reg_op_div_scalar this val =
     vector3_reg_xyz (reg_x this / val) (reg_y this / val) (reg_z this / val)"

text \<open>\<^verbatim>\<open>operator=(const vector3_reg &other)\<close> assigns the three components.\<close>

definition vector3_reg_op_assign :: "'a vector3_reg \<Rightarrow> 'a vector3_reg \<Rightarrow> 'a vector3_reg" where
  "vector3_reg_op_assign this other =
     this\<lparr>reg_x := reg_x other, reg_y := reg_y other, reg_z := reg_z other\<rparr>"

definition vector3_reg_set :: "'a vector3_reg \<Rightarrow> 'a \<Rightarrow> 'a \<Rightarrow> 'a \<Rightarrow> 'a vector3_reg" where
  "vector3_reg_set this x y z = this\<lparr>reg_x := x, reg_y := y, reg_z := z\<rparr>"

definition vector3_reg_cross :: "('a::{minus,times}) vector3_reg \<Rightarrow> 'a vector3_reg \<Rightarrow> 'a vector3_reg" where
  "vector3_reg_cross this other =
     vector3_reg_xyz (reg_y this * reg_z other - reg_z this * reg_y other)
                     (reg_z this * reg_x other - reg_x this * reg_z other)
                     (reg_x this * reg_y other - reg_y this * reg_x other)"

definition vector3_reg_dot :: "('a::{plus,times}) vector3_reg \<Rightarrow> 'a vector3_reg \<Rightarrow> 'a" where
  "vector3_reg_dot this other =
     reg_x this * reg_x other + reg_y this * reg_y other + reg_z this * reg_z other"

definition vector3_reg_length :: "('a \<Rightarrow> 'a) \<Rightarrow> ('a::{plus,times}) vector3_reg \<Rightarrow> 'a" where
  "vector3_reg_length fsqrt this =
     fsqrt (reg_x this * reg_x this + reg_y this * reg_y this + reg_z this * reg_z this)"

definition vector3_reg_rlength :: "('a \<Rightarrow> 'a) \<Rightarrow> ('a::{one,plus,times,inverse}) vector3_reg \<Rightarrow> 'a" where
  "vector3_reg_rlength fsqrt this = 1 / vector3_reg_length fsqrt this"

text \<open>\<^verbatim>\<open>normalize() const\<close> works on the local \<open>v\<close>. The result is the pair of the
  receiver after the call and the vector returned.\<close>

definition vector3_reg_normalize ::
  "('a \<Rightarrow> 'a) \<Rightarrow> ('a::{plus,times,inverse}) vector3_reg \<Rightarrow> 'a vector3_reg \<times> 'a vector3_reg" where
  "vector3_reg_normalize fsqrt this =
     (let v = vector3_reg_xyz (reg_x this) (reg_y this) (reg_z this);
          abs = vector3_reg_length fsqrt this;
          v = v\<lparr>reg_x := reg_x v / abs\<rparr>;
          v = v\<lparr>reg_y := reg_y v / abs\<rparr>;
          v = v\<lparr>reg_z := reg_z v / abs\<rparr>
      in (this, v))"

text \<open>\<^verbatim>\<open>operator>>(std::istream&, vector3_reg&)\<close>: \<^verbatim>\<open>input >> v.x >> v.y >> v.z\<close>.\<close>

definition vector3_reg_op_extract ::
  "('a::zero) istream \<Rightarrow> 'a vector3_reg \<Rightarrow> 'a istream \<times> 'a vector3_reg" where
  "vector3_reg_op_extract input v =
     (let (input, a) = istream_extract input (reg_x v);
          v = v\<lparr>reg_x := a\<rparr>;
          (input, b) = istream_extract input (reg_y v);
          v = v\<lparr>reg_y := b\<rparr>;
          (input, c) = istream_extract input (reg_z v);
          v = v\<lparr>reg_z := c\<rparr>
      in (input, v))"

text \<open>\<^verbatim>\<open>operator<<(const elt_type&)\<close> starts the comma initializer.\<close>

definition vector3_reg_op_insert :: "'a vector3_reg \<Rightarrow> 'a \<Rightarrow> 'a vector3_reg" where
  "vector3_reg_op_insert this val = this\<lparr>reg_x := val, reg_been_inserted := 1\<rparr>"

text \<open>\<^verbatim>\<open>operator,(const elt_type&)\<close>, with \<^verbatim>\<open>std::cerr\<close> passed through.\<close>

definition vector3_reg_op_comma ::
  "'a vector3_reg \<Rightarrow> 'a \<Rightarrow> string list \<Rightarrow> 'a vector3_reg \<times> string list" where
  "vector3_reg_op_comma this val cerr =
     (if reg_been_inserted this = 0 then (this, cerr @ [bad_use_message])
      else if reg_been_inserted this = 1
        then (this\<lparr>reg_y := val, reg_been_inserted := reg_been_inserted this + 1\<rparr>, cerr)
      else if reg_been_inserted this = 2
        then (this\<lparr>reg_z := val, reg_been_inserted := reg_been_inserted this + 1\<rparr>, cerr)
      else (this, cerr @ [too_many_message]))"

section \<open>The single-precision class \<^verbatim>\<open>vector3f_simd\<close>\<close>

text \<open>
  The anonymous union lays \<open>x\<close>, \<open>y\<close>, \<open>z\<close> over lanes 0, 1, 2 of \<open>mmvalue\<close>: reading a
  component reads its lane and writing it replaces that lane only. Lane 3 is the
  padding lane.
\<close>

record 'a vector3f_simd =
  f_mmvalue :: "'a m128"
  f_been_inserted :: "8 word"

definition f_x :: "'a vector3f_simd \<Rightarrow> 'a" where
  "f_x v = f0 (f_mmvalue v)"

definition f_y :: "'a vector3f_simd \<Rightarrow> 'a" where
  "f_y v = f1 (f_mmvalue v)"

definition f_z :: "'a vector3f_simd \<Rightarrow> 'a" where
  "f_z v = f2 (f_mmvalue v)"

definition f_x_update :: "'a \<Rightarrow> 'a vector3f_simd \<Rightarrow> 'a vector3f_simd" where
  "f_x_update a v = v\<lparr>f_mmvalue := (f_mmvalue v)\<lparr>f0 := a\<rparr>\<rparr>"

definition f_y_update :: "'a \<Rightarrow> 'a vector3f_simd \<Rightarrow> 'a vector3f_simd" where
  "f_y_update a v = v\<lparr>f_mmvalue := (f_mmvalue v)\<lparr>f1 := a\<rparr>\<rparr>"

definition f_z_update :: "'a \<Rightarrow> 'a vector3f_simd \<Rightarrow> 'a vector3f_simd" where
  "f_z_update a v = v\<lparr>f_mmvalue := (f_mmvalue v)\<lparr>f2 := a\<rparr>\<rparr>"

definition vector3f_simd_default :: "('a::zero) vector3f_simd" where
  "vector3f_simd_default = \<lparr>f_mmvalue = mm_setzero_ps, f_been_inserted = 0\<rparr>"

definition vector3f_simd_xyz :: "('a::zero) \<Rightarrow> 'a \<Rightarrow> 'a \<Rightarrow> 'a vector3f_simd" where
  "vector3f_simd_xyz x y z = \<lparr>f_mmvalue = mm_set_ps 0 z y x, f_been_inserted = 0\<rparr>"

text \<open>\<^verbatim>\<open>vector3f_simd(__m128 other)\<close>, also the conversion applied to every register
  that a method returns.\<close>

definition vector3f_simd_from_register :: "'a m128 \<Rightarrow> 'a vector3f_simd" where
  "vector3f_simd_from_register other = \<lparr>f_mmvalue = other, f_been_inserted = 0\<rparr>"

text \<open>The class declares no copy constructor, so \<^verbatim>\<open>vector3f_simd c(v)\<close> is the implicit
  one of C++: it copies every member, the register and \<open>been_inserted\<close>.\<close>

definition vector3f_simd_copy :: "'a vector3f_simd \<Rightarrow> 'a vector3f_simd" where
  "vector3f_simd_copy other =
     \<lparr>f_mmvalue = f_mmvalue other, f_been_inserted = f_been_inserted other\<rparr>"

definition vector3f_simd_op_add :: "('a::plus) vector3f_simd \<Rightarrow> 'a vector3f_simd \<Rightarrow> 'a vector3f_simd" where
  "vector3f_simd_op_add this other =
     vector3f_simd_from_register (mm_add_ps (f_mmvalue this) (f_mmvalue other))"

definition vector3f_simd_op_sub :: "('a::minus) vector3f_simd \<Rightarrow> 'a vector3f_simd \<Rightarrow> 'a vector3f_simd" where
  "vector3f_simd_op_sub this other =
     vector3f_simd_from_register (mm_sub_ps (f_mmvalue this) (f_mmvalue other))"

definition vector3f_simd_op_mul :: "('a::times) vector3f_simd \<Rightarrow> 'a vector3f_simd \<Rightarrow> 'a vector3f_simd" where
  "vector3f_simd_op_mul this other =
     vector3f_simd_from_register (mm_mul_ps (f_mmvalue this) (f_mmvalue other))"

definition vector3f_simd_op_div :: "('a::inverse) vector3f_simd \<Rightarrow> 'a vector3f_simd \<Rightarrow> 'a vector3f_simd" where
  "vector3f_simd_op_div this other =
     vector3f_simd_from_register (mm_div_ps (f_mmvalue this) (f_mmvalue other))"

definition vector3f_simd_op_div_assign ::
  "('a::inverse) vector3f_simd \<Rightarrow> 'a vector3f_simd \<Rightarrow> 'a vector3f_simd" where
  "vector3f_simd_op_div_assign this other =
     this\<lparr>f_mmvalue := mm_div_ps (f_mmvalue this) (f_mmvalue other)\<rparr>"

definition vector3f_simd_op_div_scalar :: "('a::inverse) vector3f_simd \<Rightarrow> 'a \<Rightarrow> 'a vector3f_simd" where
  "vector3f_simd_op_div_scalar this val =
     vector3f_simd_from_register (mm_div_ps (f_mmvalue this) (mm_set1_ps val))"

text \<open>\<^verbatim>\<open>operator=(const vector3f_simd &other)\<close> assigns the register.\<close>

definition vector3f_simd_op_assign :: "'a vector3f_simd \<Rightarrow> 'a vector3f_simd \<Rightarrow> 'a vector3f_simd" where
  "vector3f_simd_op_assign this other = this\<lparr>f_mmvalue := f_mmvalue other\<rparr>"

definition vector3f_simd_set :: "('a::zero) vector3f_simd \<Rightarrow> 'a \<Rightarrow> 'a \<Rightarrow> 'a \<Rightarrow> 'a vector3f_simd" where
  "vector3f_simd_set this x y z = this\<lparr>f_mmvalue := mm_set_ps 0 z y x\<rparr>"

definition vector3f_simd_cross ::
  "('a::{minus,times}) vector3f_simd \<Rightarrow> 'a vector3f_simd \<Rightarrow> 'a vector3f_simd" where
  "vector3f_simd_cross this other =
     vector3f_simd_from_register
       (mm_sub_ps
          (mm_mul_ps (mm_shuffle_ps (f_mmvalue this) (f_mmvalue this) (MM_SHUFFLE 3 0 2 1))
                     (mm_shuffle_ps (f_mmvalue other) (f_mmvalue other) (MM_SHUFFLE 3 1 0 2)))
          (mm_mul_ps (mm_shuffle_ps (f_mmvalue this) (f_mmvalue this) (MM_SHUFFLE 3 1 0 2))
                     (mm_shuffle_ps (f_mmvalue other) (f_mmvalue other) (MM_SHUFFLE 3 0 2 1))))"

definition vector3f_simd_dot :: "('a::{zero,plus,times}) vector3f_simd \<Rightarrow> 'a vector3f_simd \<Rightarrow> 'a" where
  "vector3f_simd_dot this other =
     mm_cvtss_f32 (mm_dp_ps (f_mmvalue this) (f_mmvalue other) 0x71)"

definition vector3f_simd_length :: "('a \<Rightarrow> 'a) \<Rightarrow> ('a::{zero,plus,times}) vector3f_simd \<Rightarrow> 'a" where
  "vector3f_simd_length fsqrt this =
     mm_cvtss_f32 (mm_sqrt_ss fsqrt (mm_dp_ps (f_mmvalue this) (f_mmvalue this) 0x71))"

definition vector3f_simd_rlength :: "('a \<Rightarrow> 'a) \<Rightarrow> ('a::{zero,plus,times}) vector3f_simd \<Rightarrow> 'a" where
  "vector3f_simd_rlength frsqrt this =
     mm_cvtss_f32 (mm_rsqrt_ss frsqrt (mm_dp_ps (f_mmvalue this) (f_mmvalue this) 0x71))"

text \<open>\<^verbatim>\<open>normalize() const\<close>: the pair of the receiver after the call and the vector
  returned.\<close>

definition vector3f_simd_normalize ::
  "('a \<Rightarrow> 'a) \<Rightarrow> ('a::{zero,plus,times}) vector3f_simd \<Rightarrow> 'a vector3f_simd \<times> 'a vector3f_simd" where
  "vector3f_simd_normalize frsqrt this =
     (this, vector3f_simd_from_register
              (mm_mul_ps (f_mmvalue this)
                 (mm_rsqrt_ps frsqrt (mm_dp_ps (f_mmvalue this) (f_mmvalue this) 0x7F))))"

definition vector3f_simd_op_extract ::
  "('a::zero) istream \<Rightarrow> 'a vector3f_simd \<Rightarrow> 'a istream \<times> 'a vector3f_simd" where
  "vector3f_simd_op_extract input v =
     (let (input, a) = istream_extract input (f_x v);
          v = f_x_update a v;
          (input, b) = istream_extract input (f_y v);
          v = f_y_update b v;
          (input, c) = istream_extract input (f_z v);
          v = f_z_update c v
      in (input, v))"

definition vector3f_simd_op_insert :: "'a vector3f_simd \<Rightarrow> 'a \<Rightarrow> 'a vector3f_simd" where
  "vector3f_simd_op_insert this val = (f_x_update val this)\<lparr>f_been_inserted := 1\<rparr>"

definition vector3f_simd_op_comma ::
  "'a vector3f_simd \<Rightarrow> 'a \<Rightarrow> string list \<Rightarrow> 'a vector3f_simd \<times> string list" where
  "vector3f_simd_op_comma this val cerr =
     (if f_been_inserted this = 0 then (this, cerr @ [bad_use_message])
      else if f_been_inserted this = 1
        then ((f_y_update val this)\<lparr>f_been_inserted := f_been_inserted this + 1\<rparr>, cerr)
      else if f_been_inserted this = 2
        then ((f_z_update val this)\<lparr>f_been_inserted := f_been_inserted this + 1\<rparr>, cerr)
      else (this, cerr @ [too_many_message]))"

section \<open>The double-precision class \<^verbatim>\<open>vector3d_simd\<close>\<close>

record 'a vector3d_simd =
  d_mmvalue :: "'a m256d"
  d_been_inserted :: "8 word"

definition d_x :: "'a vector3d_simd \<Rightarrow> 'a" where
  "d_x v = d0 (d_mmvalue v)"

definition d_y :: "'a vector3d_simd \<Rightarrow> 'a" where
  "d_y v = d1 (d_mmvalue v)"

definition d_z :: "'a vector3d_simd \<Rightarrow> 'a" where
  "d_z v = d2 (d_mmvalue v)"

definition d_x_update :: "'a \<Rightarrow> 'a vector3d_simd \<Rightarrow> 'a vector3d_simd" where
  "d_x_update a v = v\<lparr>d_mmvalue := (d_mmvalue v)\<lparr>d0 := a\<rparr>\<rparr>"

definition d_y_update :: "'a \<Rightarrow> 'a vector3d_simd \<Rightarrow> 'a vector3d_simd" where
  "d_y_update a v = v\<lparr>d_mmvalue := (d_mmvalue v)\<lparr>d1 := a\<rparr>\<rparr>"

definition d_z_update :: "'a \<Rightarrow> 'a vector3d_simd \<Rightarrow> 'a vector3d_simd" where
  "d_z_update a v = v\<lparr>d_mmvalue := (d_mmvalue v)\<lparr>d2 := a\<rparr>\<rparr>"

definition vector3d_simd_default :: "('a::zero) vector3d_simd" where
  "vector3d_simd_default = \<lparr>d_mmvalue = mm256_setzero_pd, d_been_inserted = 0\<rparr>"

definition vector3d_simd_xyz :: "('a::zero) \<Rightarrow> 'a \<Rightarrow> 'a \<Rightarrow> 'a vector3d_simd" where
  "vector3d_simd_xyz x y z = \<lparr>d_mmvalue = mm256_set_pd 0 z y x, d_been_inserted = 0\<rparr>"

definition vector3d_simd_from_register :: "'a m256d \<Rightarrow> 'a vector3d_simd" where
  "vector3d_simd_from_register other = \<lparr>d_mmvalue = other, d_been_inserted = 0\<rparr>"

text \<open>No copy constructor is declared here either: the implicit one copies every
  member.\<close>

definition vector3d_simd_copy :: "'a vector3d_simd \<Rightarrow> 'a vector3d_simd" where
  "vector3d_simd_copy other =
     \<lparr>d_mmvalue = d_mmvalue other, d_been_inserted = d_been_inserted other\<rparr>"

definition vector3d_simd_op_add :: "('a::plus) vector3d_simd \<Rightarrow> 'a vector3d_simd \<Rightarrow> 'a vector3d_simd" where
  "vector3d_simd_op_add this other =
     vector3d_simd_from_register (mm256_add_pd (d_mmvalue this) (d_mmvalue other))"

definition vector3d_simd_op_sub :: "('a::minus) vector3d_simd \<Rightarrow> 'a vector3d_simd \<Rightarrow> 'a vector3d_simd" where
  "vector3d_simd_op_sub this other =
     vector3d_simd_from_register (mm256_sub_pd (d_mmvalue this) (d_mmvalue other))"

definition vector3d_simd_op_mul :: "('a::times) vector3d_simd \<Rightarrow> 'a vector3d_simd \<Rightarrow> 'a vector3d_simd" where
  "vector3d_simd_op_mul this other =
     vector3d_simd_from_register (mm256_mul_pd (d_mmvalue this) (d_mmvalue other))"

text \<open>\<^verbatim>\<open>operator/\<close>: \<^verbatim>\<open>r = other.mmvalue; r[3] = 1.0;\<close> before the division.\<close>

definition vector3d_simd_op_div ::
  "('a::{one,inverse}) vector3d_simd \<Rightarrow> 'a vector3d_simd \<Rightarrow> 'a vector3d_simd" where
  "vector3d_simd_op_div this other =
     (let r = d_mmvalue other;
          r = r\<lparr>d3 := 1\<rparr>
      in vector3d_simd_from_register (mm256_div_pd (d_mmvalue this) r))"

definition vector3d_simd_op_div_assign ::
  "('a::{one,inverse}) vector3d_simd \<Rightarrow> 'a vector3d_simd \<Rightarrow> 'a vector3d_simd" where
  "vector3d_simd_op_div_assign this other =
     (let r = d_mmvalue other;
          r = r\<lparr>d3 := 1\<rparr>
      in this\<lparr>d_mmvalue := mm256_div_pd (d_mmvalue this) r\<rparr>)"

definition vector3d_simd_op_div_scalar :: "('a::{one,inverse}) vector3d_simd \<Rightarrow> 'a \<Rightarrow> 'a vector3d_simd" where
  "vector3d_simd_op_div_scalar this val =
     vector3d_simd_from_register (mm256_div_pd (d_mmvalue this) (mm256_set_pd 1 val val val))"

text \<open>\<^verbatim>\<open>operator=(const vector3d_simd &other)\<close> assigns the register.\<close>

definition vector3d_simd_op_assign :: "'a vector3d_simd \<Rightarrow> 'a vector3d_simd \<Rightarrow> 'a vector3d_simd" where
  "vector3d_simd_op_assign this other = this\<lparr>d_mmvalue := d_mmvalue other\<rparr>"

definition vector3d_simd_set :: "('a::zero) vector3d_simd \<Rightarrow> 'a \<Rightarrow> 'a \<Rightarrow> 'a \<Rightarrow> 'a vector3d_simd" where
  "vector3d_simd_set this x y z = this\<lparr>d_mmvalue := mm256_set_pd 0 z y x\<rparr>"

definition vector3d_simd_cross ::
  "('a::{minus,times}) vector3d_simd \<Rightarrow> 'a vector3d_simd \<Rightarrow> 'a vector3d_simd" where
  "vector3d_simd_cross this other =
     vector3d_simd_from_register
       (mm256_sub_pd
          (mm256_mul_pd (mm256_permute4x64_pd (d_mmvalue this) (MM_SHUFFLE 3 0 2 1))
                        (mm256_permute4x64_pd (d_mmvalue other) (MM_SHUFFLE 3 1 0 2)))
          (mm256_mul_pd (mm256_permute4x64_pd (d_mmvalue this) (MM_SHUFFLE 3 1 0 2))
                        (mm256_permute4x64_pd (d_mmvalue other) (MM_SHUFFLE 3 0 2 1))))"

text \<open>\<^verbatim>\<open>dot(const vector3d_simd &other)\<close>: the body multiplies \<open>mmvalue\<close> by
  \<open>mmvalue\<close>; the parameter does not occur in it.\<close>

definition vector3d_simd_dot :: "('a::{plus,times}) vector3d_simd \<Rightarrow> 'a vector3d_simd \<Rightarrow> 'a" where
  "vector3d_simd_dot this other =
     (let r1 = mm256_mul_pd (d_mmvalue this) (d_mmvalue this);
          r2 = mm256_hadd_pd r1 r1
      in mm_cvtsd_f64 (mm_add_pd (mm256_extractf128_pd r2 1) (mm256_castpd256_pd128 r2)))"

definition vector3d_simd_length :: "('a \<Rightarrow> 'a) \<Rightarrow> ('a::{plus,times}) vector3d_simd \<Rightarrow> 'a" where
  "vector3d_simd_length fsqrt this =
     (let r1 = mm256_mul_pd (d_mmvalue this) (d_mmvalue this);
          r2 = mm256_hadd_pd r1 r1
      in mm_cvtsd_f64 (mm_sqrt_pd fsqrt
           (mm_add_pd (mm256_extractf128_pd r2 1) (mm256_castpd256_pd128 r2))))"

definition vector3d_simd_rlength :: "('a \<Rightarrow> 'a) \<Rightarrow> ('a::{one,plus,times,inverse}) vector3d_simd \<Rightarrow> 'a" where
  "vector3d_simd_rlength fsqrt this = 1 / vector3d_simd_length fsqrt this"

definition vector3d_simd_normalize ::
  "('a \<Rightarrow> 'a) \<Rightarrow> ('a::{one,plus,times,inverse}) vector3d_simd \<Rightarrow> 'a vector3d_simd \<times> 'a vector3d_simd" where
  "vector3d_simd_normalize fsqrt this =
     (let r = mm256_set1_pd (vector3d_simd_rlength fsqrt this)
      in (this, vector3d_simd_from_register (mm256_mul_pd (d_mmvalue this) r)))"

definition vector3d_simd_op_extract ::
  "('a::zero) istream \<Rightarrow> 'a vector3d_simd \<Rightarrow> 'a istream \<times> 'a vector3d_simd" where
  "vector3d_simd_op_extract input v =
     (let (input, a) = istream_extract input (d_x v);
          v = d_x_update a v;
          (input, b) = istream_extract input (d_y v);
          v = d_y_update b v;
          (input, c) = istream_extract input (d_z v);
          v = d_z_update c v
      in (input, v))"

definition vector3d_simd_op_insert :: "'a vector3d_simd \<Rightarrow> 'a \<Rightarrow> 'a vector3d_simd" where
  "vector3d_simd_op_insert this val = (d_x_update val this)\<lparr>d_been_inserted := 1\<rparr>"

definition vector3d_simd_op_comma ::
  "'a vector3d_simd \<Rightarrow> 'a \<Rightarrow> string list \<Rightarrow> 'a vector3d_simd \<times> string list" where
  "vector3d_simd_op_comma this val cerr =
     (if d_been_inserted this = 0 then (this, cerr @ [bad_use_message])
      else if d_been_inserted this = 1
        then ((d_y_update val this)\<lparr>d_been_inserted := d_been_inserted this + 1\<rparr>, cerr)
      else if d_been_inserted this = 2
        then ((d_z_update val this)\<lparr>d_been_inserted := d_been_inserted this + 1\<rparr>, cerr)
      else (this, cerr @ [too_many_message]))"


section \<open>The comma initializer as a caller writes it\<close>

text \<open>
  The statement \<^verbatim>\<open>v << a, b, c;\<close>: \<^verbatim>\<open>operator<<\<close> binds tighter than the comma and
  both operators return \<^verbatim>\<open>*this\<close>, so the statement is
  \<^verbatim>\<open>((v << a), b), c\<close> on one object.
\<close>

definition vector3_reg_insert3 ::
  "'a vector3_reg \<Rightarrow> 'a \<Rightarrow> 'a \<Rightarrow> 'a \<Rightarrow> string list \<Rightarrow> 'a vector3_reg \<times> string list" where
  "vector3_reg_insert3 v a b c cerr =
     (let v = vector3_reg_op_insert v a;
          (v, cerr) = vector3_reg_op_comma v b cerr;
          (v, cerr) = vector3_reg_op_comma v c cerr
      in (v, cerr))"

definition vector3f_simd_insert3 ::
  "'a vector3f_simd \<Rightarrow> 'a \<Rightarrow> 'a \<Rightarrow> 'a \<Rightarrow> string list \<Rightarrow> 'a vector3f_simd \<times> string list" where
  "vector3f_simd_insert3 v a b c cerr =
     (let v = vector3f_simd_op_insert v a;
          (v, cerr) = vector3f_simd_op_comma v b cerr;
          (v, cerr) = vector3f_simd_op_comma v c cerr
      in (v, cerr))"

definition vector3d_simd_insert3 ::
  "'a vector3d_simd \<Rightarrow> 'a \<Rightarrow> 'a \<Rightarrow> 'a \<Rightarrow> string list \<Rightarrow> 'a vector3d_simd \<times> string list" where
  "vector3d_simd_insert3 v a b c cerr =
     (let v = vector3d_simd_op_insert v a;
          (v, cerr) = vector3d_simd_op_comma v b cerr;
          (v, cerr) = vector3d_simd_op_comma v c cerr
      in (v, cerr))"

section \<open>Facts about the element model and the intrinsics\<close>

lemmas fp_arith = zero_fp_def one_fp_def plus_fp_def minus_fp_def times_fp_def
  divide_fp_def fp_sub_def fp_rsqrt_def signed_inf_def

lemmas component_defs = f_x_def f_y_def f_z_def d_x_def d_y_def d_z_def

lemmas component_update_defs = f_x_update_def f_y_update_def f_z_update_def
  d_x_update_def d_y_update_def d_z_update_def

lemma sqrt_169: "sqrt 169 = 13"
  by (rule real_sqrt_unique) simp_all

lemma sqrt_25: "sqrt 25 = 5"
  by (rule real_sqrt_unique) simp_all

text \<open>The two controls of the cross product and the two masks of the dot product.\<close>

lemma control_3021:
  "control (MM_SHUFFLE 3 0 2 1) 0 = 1" "control (MM_SHUFFLE 3 0 2 1) 2 = 2"
  "control (MM_SHUFFLE 3 0 2 1) 4 = 0" "control (MM_SHUFFLE 3 0 2 1) 6 = 3"
  by (simp_all add: MM_SHUFFLE_def control_def)

lemma control_3102:
  "control (MM_SHUFFLE 3 1 0 2) 0 = 2" "control (MM_SHUFFLE 3 1 0 2) 2 = 0"
  "control (MM_SHUFFLE 3 1 0 2) 4 = 1" "control (MM_SHUFFLE 3 1 0 2) 6 = 3"
  by (simp_all add: MM_SHUFFLE_def control_def)

lemma mm_shuffle_ps_3021:
  "mm_shuffle_ps a a (MM_SHUFFLE 3 0 2 1) = \<lparr>f0 = f1 a, f1 = f2 a, f2 = f0 a, f3 = f3 a\<rparr>"
  by (simp add: mm_shuffle_ps_def control_3021 select4_ps_def)

lemma mm_shuffle_ps_3102:
  "mm_shuffle_ps a a (MM_SHUFFLE 3 1 0 2) = \<lparr>f0 = f2 a, f1 = f0 a, f2 = f1 a, f3 = f3 a\<rparr>"
  by (simp add: mm_shuffle_ps_def control_3102 select4_ps_def)

lemma mm256_permute4x64_pd_3021:
  "mm256_permute4x64_pd a (MM_SHUFFLE 3 0 2 1) = \<lparr>d0 = d1 a, d1 = d2 a, d2 = d0 a, d3 = d3 a\<rparr>"
  by (simp add: mm256_permute4x64_pd_def control_3021 select4_pd_def)

lemma mm256_permute4x64_pd_3102:
  "mm256_permute4x64_pd a (MM_SHUFFLE 3 1 0 2) = \<lparr>d0 = d2 a, d1 = d0 a, d2 = d1 a, d3 = d3 a\<rparr>"
  by (simp add: mm256_permute4x64_pd_def control_3102 select4_pd_def)

lemma mm_dp_ps_0x71:
  "mm_dp_ps a b 0x71 =
     \<lparr>f0 = (0 + f2 a * f2 b) + (f1 a * f1 b + f0 a * f0 b), f1 = 0, f2 = 0, f3 = 0\<rparr>"
  by (simp add: mm_dp_ps_def)

lemma mm_dp_ps_0x7F:
  "mm_dp_ps a b 0x7F =
     (let s = (0 + f2 a * f2 b) + (f1 a * f1 b + f0 a * f0 b)
      in \<lparr>f0 = s, f1 = s, f2 = s, f3 = s\<rparr>)"
  by (simp add: mm_dp_ps_def Let_def)

section \<open>What each method computes, lane by lane\<close>

lemma vector3f_simd_dot_lanes:
  "vector3f_simd_dot v w = (0 + f_z v * f_z w) + (f_y v * f_y w + f_x v * f_x w)"
  by (simp add: vector3f_simd_dot_def mm_dp_ps_0x71 mm_cvtss_f32_def component_defs)

lemma vector3f_simd_rlength_lanes:
  "vector3f_simd_rlength frsqrt v = frsqrt ((0 + f_z v * f_z v) + (f_y v * f_y v + f_x v * f_x v))"
  by (simp add: vector3f_simd_rlength_def mm_dp_ps_0x71 mm_cvtss_f32_def mm_rsqrt_ss_def
      component_defs)

text \<open>The double-precision sum runs over the four lanes of the receiver.\<close>

lemma vector3d_simd_dot_lanes:
  "vector3d_simd_dot v w =
     (d3 (d_mmvalue v) * d3 (d_mmvalue v) + d_z v * d_z v) + (d_y v * d_y v + d_x v * d_x v)"
  by (simp add: vector3d_simd_dot_def mm256_mul_pd_def mm256_hadd_pd_def
      mm256_extractf128_pd_def mm256_castpd256_pd128_def mm_add_pd_def mm_cvtsd_f64_def
      component_defs Let_def)

lemma vector3d_simd_length_lanes:
  "vector3d_simd_length fsqrt v =
     fsqrt ((d3 (d_mmvalue v) * d3 (d_mmvalue v) + d_z v * d_z v)
            + (d_y v * d_y v + d_x v * d_x v))"
  by (simp add: vector3d_simd_length_def mm256_mul_pd_def mm256_hadd_pd_def
      mm256_extractf128_pd_def mm256_castpd256_pd128_def mm_add_pd_def mm_sqrt_pd_def
      mm_cvtsd_f64_def component_defs Let_def)

lemma vector3f_simd_cross_register:
  "f_mmvalue (vector3f_simd_cross v w) =
     \<lparr>f0 = f_y v * f_z w - f_z v * f_y w,
      f1 = f_z v * f_x w - f_x v * f_z w,
      f2 = f_x v * f_y w - f_y v * f_x w,
      f3 = f3 (f_mmvalue v) * f3 (f_mmvalue w) - f3 (f_mmvalue v) * f3 (f_mmvalue w)\<rparr>"
  by (simp add: vector3f_simd_cross_def vector3f_simd_from_register_def mm_shuffle_ps_3021
      mm_shuffle_ps_3102 mm_sub_ps_def mm_mul_ps_def component_defs)

lemma vector3d_simd_cross_register:
  "d_mmvalue (vector3d_simd_cross v w) =
     \<lparr>d0 = d_y v * d_z w - d_z v * d_y w,
      d1 = d_z v * d_x w - d_x v * d_z w,
      d2 = d_x v * d_y w - d_y v * d_x w,
      d3 = d3 (d_mmvalue v) * d3 (d_mmvalue w) - d3 (d_mmvalue v) * d3 (d_mmvalue w)\<rparr>"
  by (simp add: vector3d_simd_cross_def vector3d_simd_from_register_def
      mm256_permute4x64_pd_3021 mm256_permute4x64_pd_3102 mm256_sub_pd_def mm256_mul_pd_def
      component_defs)

lemma vector3_reg_normalize_result:
  "vector3_reg_normalize fsqrt v =
     (v, vector3_reg_xyz (reg_x v / vector3_reg_length fsqrt v)
           (reg_y v / vector3_reg_length fsqrt v) (reg_z v / vector3_reg_length fsqrt v))"
  by (simp add: vector3_reg_normalize_def Let_def vector3_reg_xyz_def)

lemma vector3f_simd_normalize_result:
  "vector3f_simd_normalize frsqrt v =
     (v, vector3f_simd_from_register
           \<lparr>f0 = f_x v * vector3f_simd_rlength frsqrt v,
            f1 = f_y v * vector3f_simd_rlength frsqrt v,
            f2 = f_z v * vector3f_simd_rlength frsqrt v,
            f3 = f3 (f_mmvalue v) * vector3f_simd_rlength frsqrt v\<rparr>)"
  by (simp add: vector3f_simd_normalize_def vector3f_simd_rlength_lanes mm_dp_ps_0x7F Let_def
      mm_rsqrt_ps_def mm_mul_ps_def component_defs)

lemma vector3d_simd_normalize_result:
  "vector3d_simd_normalize fsqrt v =
     (v, vector3d_simd_from_register
           \<lparr>d0 = d_x v * vector3d_simd_rlength fsqrt v,
            d1 = d_y v * vector3d_simd_rlength fsqrt v,
            d2 = d_z v * vector3d_simd_rlength fsqrt v,
            d3 = d3 (d_mmvalue v) * vector3d_simd_rlength fsqrt v\<rparr>)"
  by (simp add: vector3d_simd_normalize_def Let_def mm256_set1_pd_def mm256_mul_pd_def
      component_defs)

lemma vector3_reg_insert3_result:
  "vector3_reg_insert3 v a b c cerr =
     (v\<lparr>reg_x := a, reg_y := b, reg_z := c, reg_been_inserted := 3\<rparr>, cerr)"
  by (simp add: vector3_reg_insert3_def vector3_reg_op_insert_def vector3_reg_op_comma_def)

lemma vector3f_simd_insert3_result:
  "vector3f_simd_insert3 v a b c cerr =
     (\<lparr>f_mmvalue = \<lparr>f0 = a, f1 = b, f2 = c, f3 = f3 (f_mmvalue v)\<rparr>, f_been_inserted = 3\<rparr>,
      cerr)"
  by (simp add: vector3f_simd_insert3_def vector3f_simd_op_insert_def
      vector3f_simd_op_comma_def component_update_defs)

lemma vector3d_simd_insert3_result:
  "vector3d_simd_insert3 v a b c cerr =
     (\<lparr>d_mmvalue = \<lparr>d0 = a, d1 = b, d2 = c, d3 = d3 (d_mmvalue v)\<rparr>, d_been_inserted = 3\<rparr>,
      cerr)"
  by (simp add: vector3d_simd_insert3_def vector3d_simd_op_insert_def
      vector3d_simd_op_comma_def component_update_defs)


section \<open>Dot product\<close>

text \<open>
  Claim C1: in every backend \<open>v.dot(o)\<close> is \<open>x * o.x + y * o.y + z * o.z\<close>.
  The scalar and the single-precision class compute it. The double-precision class
  squares the lanes of the receiver and never reads \<open>other\<close>: for
  \<open>v = (1, 2, 3)\<close> and \<open>o = (4, 5, 6)\<close> the first two return 32 and the third
  returns 14, which is \<open>v.dot(v)\<close>.
\<close>

theorem vector3d_simd_dot_ignores_other:
  "vector3_reg_dot (vector3_reg_xyz (Fin 1) (Fin 2) (Fin 3))
                   (vector3_reg_xyz (Fin 4) (Fin 5) (Fin 6)) = Fin 32
 \<and> vector3f_simd_dot (vector3f_simd_xyz (Fin 1) (Fin 2) (Fin 3))
                     (vector3f_simd_xyz (Fin 4) (Fin 5) (Fin 6)) = Fin 32
 \<and> vector3d_simd_dot (vector3d_simd_xyz (Fin 1) (Fin 2) (Fin 3))
                     (vector3d_simd_xyz (Fin 4) (Fin 5) (Fin 6)) = Fin 14"
  by (simp add: vector3_reg_dot_def vector3_reg_xyz_def vector3f_simd_dot_lanes
      vector3d_simd_dot_lanes vector3f_simd_xyz_def vector3d_simd_xyz_def component_defs
      mm_set_ps_def mm256_set_pd_def fp_arith)

section \<open>Division and the padding lane\<close>

text \<open>
  Claim C2: elementwise division replaces the padding lane of the divisor by a safe
  non-zero value before it divides, in both SIMD classes and for a vector as for a
  scalar divisor. The double-precision class does (\<^verbatim>\<open>r[3] = 1.0\<close>, and 1.0 in the
  padding lane of the broadcast scalar); the single-precision class divides by the
  register of the divisor as it is. Dividing two vectors built by the three-argument
  constructor, whose padding lanes are 0, leaves \<open>0 / 0 = NaN\<close> in the padding lane of
  the single-precision quotient, for \<^verbatim>\<open>operator/\<close> and for \<^verbatim>\<open>operator/=\<close>, and 0 in the
  double-precision one.
\<close>

theorem vector3f_simd_op_div_padding_not_neutralized:
  "f3 (f_mmvalue (vector3f_simd_op_div (vector3f_simd_xyz (Fin 2) (Fin 4) (Fin 6))
                                        (vector3f_simd_xyz (Fin 1) (Fin 2) (Fin 4)))) = NaN
 \<and> f3 (f_mmvalue (vector3f_simd_op_div_assign (vector3f_simd_xyz (Fin 2) (Fin 4) (Fin 6))
                                               (vector3f_simd_xyz (Fin 1) (Fin 2) (Fin 4)))) = NaN
 \<and> d3 (d_mmvalue (vector3d_simd_op_div (vector3d_simd_xyz (Fin 2) (Fin 4) (Fin 6))
                                        (vector3d_simd_xyz (Fin 1) (Fin 2) (Fin 4)))) = Fin 0
 \<and> d3 (d_mmvalue (vector3d_simd_op_div_assign (vector3d_simd_xyz (Fin 2) (Fin 4) (Fin 6))
                                               (vector3d_simd_xyz (Fin 1) (Fin 2) (Fin 4)))) = Fin 0
 \<and> d3 (d_mmvalue (vector3d_simd_op_div_scalar (vector3d_simd_xyz (Fin 2) (Fin 4) (Fin 6))
                                               (Fin 0))) = Fin 0
 \<and> f3 (f_mmvalue (vector3f_simd_op_div_scalar (vector3f_simd_xyz (Fin 2) (Fin 4) (Fin 6))
                                               (Fin 0))) = NaN"
  by (simp add: vector3f_simd_op_div_def vector3d_simd_op_div_def
      vector3f_simd_op_div_assign_def vector3d_simd_op_div_assign_def
      vector3f_simd_op_div_scalar_def vector3d_simd_op_div_scalar_def vector3f_simd_xyz_def
      vector3d_simd_xyz_def vector3f_simd_from_register_def vector3d_simd_from_register_def
      mm_set_ps_def mm_set1_ps_def mm256_set_pd_def mm_div_ps_def mm256_div_pd_def fp_arith
      Let_def)

text \<open>
  Claim C3: the components \<open>x\<close>, \<open>y\<close>, \<open>z\<close> of \<open>a / b\<close> are \<open>a.x / b.x\<close>, \<open>a.y / b.y\<close>,
  \<open>a.z / b.z\<close> in both SIMD classes, so a zero in the padding lane of \<open>b\<close> cannot
  turn them into NaN or an infinity. This holds for every register of \<open>a\<close> and of \<open>b\<close>,
  whatever their padding lanes hold, and for every element arithmetic.
\<close>

theorem division_components_isolated_from_padding:
  "f_x (vector3f_simd_op_div a b) = f_x a / f_x b
 \<and> f_y (vector3f_simd_op_div a b) = f_y a / f_y b
 \<and> f_z (vector3f_simd_op_div a b) = f_z a / f_z b
 \<and> d_x (vector3d_simd_op_div p q) = d_x p / d_x q
 \<and> d_y (vector3d_simd_op_div p q) = d_y p / d_y q
 \<and> d_z (vector3d_simd_op_div p q) = d_z p / d_z q"
  by (simp add: vector3f_simd_op_div_def vector3d_simd_op_div_def component_defs
      vector3f_simd_from_register_def vector3d_simd_from_register_def mm_div_ps_def
      mm256_div_pd_def Let_def)

text \<open>The same at a divisor given as a raw register with padding lane 0: the quotients
  are finite.\<close>

theorem division_components_isolated_from_padding_witness:
  "f3 \<lparr>f0 = Fin 1, f1 = Fin 2, f2 = Fin 4, f3 = Fin 0\<rparr> = Fin 0
 \<and> d3 \<lparr>d0 = Fin 1, d1 = Fin 2, d2 = Fin 4, d3 = Fin 0\<rparr> = Fin 0
 \<and> (let r = vector3f_simd_op_div (vector3f_simd_xyz (Fin 2) (Fin 4) (Fin 6))
              (vector3f_simd_from_register \<lparr>f0 = Fin 1, f1 = Fin 2, f2 = Fin 4, f3 = Fin 0\<rparr>)
     in (f_x r, f_y r, f_z r) = (Fin 2, Fin 2, Fin (3 / 2)))
 \<and> (let r = vector3d_simd_op_div (vector3d_simd_xyz (Fin 2) (Fin 4) (Fin 6))
              (vector3d_simd_from_register \<lparr>d0 = Fin 1, d1 = Fin 2, d2 = Fin 4, d3 = Fin 0\<rparr>)
     in (d_x r, d_y r, d_z r) = (Fin 2, Fin 2, Fin (3 / 2)))"
  using division_components_isolated_from_padding
    [of "vector3f_simd_xyz (Fin 2) (Fin 4) (Fin 6)"
        "vector3f_simd_from_register \<lparr>f0 = Fin 1, f1 = Fin 2, f2 = Fin 4, f3 = Fin 0\<rparr>"
        "vector3d_simd_xyz (Fin 2) (Fin 4) (Fin 6)"
        "vector3d_simd_from_register \<lparr>d0 = Fin 1, d1 = Fin 2, d2 = Fin 4, d3 = Fin 0\<rparr>"]
  by (simp add: Let_def component_defs vector3f_simd_xyz_def vector3d_simd_xyz_def
      vector3f_simd_from_register_def vector3d_simd_from_register_def mm_set_ps_def
      mm256_set_pd_def fp_arith)

section \<open>The horizontal sum of the double-precision class\<close>

text \<open>
  Claim C4: \<open>dot()\<close> and \<open>length()\<close> of the double-precision class sum the lanes
  \<open>x\<close>, \<open>y\<close>, \<open>z\<close> only, so that their value does not depend on the padding lane. The
  code adds both halves of the horizontal sum, so the square of the padding lane is part
  of the result, where the single-precision class masks the lane out (mask \<open>0x71\<close>).
  For the register \<open>(3, 4, 0, 12)\<close> the double-precision \<open>length()\<close> is 13 and the
  dot product with \<open>(3, 4, 0)\<close> is 169; with padding lane 0 they are 5 and 25, as they
  are in the single-precision class for the register \<open>(3, 4, 0, 12)\<close> and in the scalar
  class. The padding lane is reached without a raw register as well: after
  \<^verbatim>\<open>v = v.normalize(); v << 3, 4, 0;\<close> on a default vector the register is
  \<open>(3, 4, 0, NaN)\<close> and \<open>length()\<close> is NaN in the double-precision class, 5 in the
  other two.
\<close>

theorem vector3d_simd_length_dot_read_padding:
  "vector3d_simd_length fp_sqrt
     (vector3d_simd_from_register \<lparr>d0 = Fin 3, d1 = Fin 4, d2 = Fin 0, d3 = Fin 12\<rparr>) = Fin 13
 \<and> vector3d_simd_length fp_sqrt
     (vector3d_simd_from_register \<lparr>d0 = Fin 3, d1 = Fin 4, d2 = Fin 0, d3 = Fin 0\<rparr>) = Fin 5
 \<and> vector3f_simd_length fp_sqrt
     (vector3f_simd_from_register \<lparr>f0 = Fin 3, f1 = Fin 4, f2 = Fin 0, f3 = Fin 12\<rparr>) = Fin 5
 \<and> vector3_reg_length fp_sqrt (vector3_reg_xyz (Fin 3) (Fin 4) (Fin 0)) = Fin 5
 \<and> vector3d_simd_dot
     (vector3d_simd_from_register \<lparr>d0 = Fin 3, d1 = Fin 4, d2 = Fin 0, d3 = Fin 12\<rparr>)
     (vector3d_simd_xyz (Fin 3) (Fin 4) (Fin 0)) = Fin 169
 \<and> vector3d_simd_dot
     (vector3d_simd_from_register \<lparr>d0 = Fin 3, d1 = Fin 4, d2 = Fin 0, d3 = Fin 0\<rparr>)
     (vector3d_simd_xyz (Fin 3) (Fin 4) (Fin 0)) = Fin 25
 \<and> vector3f_simd_dot
     (vector3f_simd_from_register \<lparr>f0 = Fin 3, f1 = Fin 4, f2 = Fin 0, f3 = Fin 12\<rparr>)
     (vector3f_simd_xyz (Fin 3) (Fin 4) (Fin 0)) = Fin 25
 \<and> fst (vector3d_simd_insert3
      (vector3d_simd_op_assign vector3d_simd_default
         (snd (vector3d_simd_normalize fp_sqrt vector3d_simd_default)))
      (Fin 3) (Fin 4) (Fin 0) []) =
     \<lparr>d_mmvalue = \<lparr>d0 = Fin 3, d1 = Fin 4, d2 = Fin 0, d3 = NaN\<rparr>, d_been_inserted = 3\<rparr>
 \<and> vector3d_simd_length fp_sqrt
     \<lparr>d_mmvalue = \<lparr>d0 = Fin 3, d1 = Fin 4, d2 = Fin 0, d3 = NaN\<rparr>, d_been_inserted = 3\<rparr> = NaN
 \<and> fst (vector3f_simd_insert3
      (vector3f_simd_op_assign vector3f_simd_default
         (snd (vector3f_simd_normalize fp_rsqrt vector3f_simd_default)))
      (Fin 3) (Fin 4) (Fin 0) []) =
     \<lparr>f_mmvalue = \<lparr>f0 = Fin 3, f1 = Fin 4, f2 = Fin 0, f3 = NaN\<rparr>, f_been_inserted = 3\<rparr>
 \<and> vector3f_simd_length fp_sqrt
     \<lparr>f_mmvalue = \<lparr>f0 = Fin 3, f1 = Fin 4, f2 = Fin 0, f3 = NaN\<rparr>, f_been_inserted = 3\<rparr> = Fin 5
 \<and> fst (vector3_reg_insert3
      (vector3_reg_op_assign vector3_reg_default
         (snd (vector3_reg_normalize fp_sqrt vector3_reg_default)))
      (Fin 3) (Fin 4) (Fin 0) []) =
     \<lparr>reg_x = Fin 3, reg_y = Fin 4, reg_z = Fin 0, reg_been_inserted = 3\<rparr>
 \<and> vector3_reg_length fp_sqrt
     \<lparr>reg_x = Fin 3, reg_y = Fin 4, reg_z = Fin 0, reg_been_inserted = 3\<rparr> = Fin 5"
proof -
  have raw: "vector3d_simd_length fp_sqrt
      (vector3d_simd_from_register \<lparr>d0 = Fin 3, d1 = Fin 4, d2 = Fin 0, d3 = Fin 12\<rparr>) = Fin 13"
    "vector3d_simd_length fp_sqrt
      (vector3d_simd_from_register \<lparr>d0 = Fin 3, d1 = Fin 4, d2 = Fin 0, d3 = Fin 0\<rparr>) = Fin 5"
    "vector3d_simd_dot
      (vector3d_simd_from_register \<lparr>d0 = Fin 3, d1 = Fin 4, d2 = Fin 0, d3 = Fin 12\<rparr>)
      (vector3d_simd_xyz (Fin 3) (Fin 4) (Fin 0)) = Fin 169"
    "vector3d_simd_dot
      (vector3d_simd_from_register \<lparr>d0 = Fin 3, d1 = Fin 4, d2 = Fin 0, d3 = Fin 0\<rparr>)
      (vector3d_simd_xyz (Fin 3) (Fin 4) (Fin 0)) = Fin 25"
    by (simp_all add: vector3d_simd_length_lanes vector3d_simd_dot_lanes
        vector3d_simd_from_register_def component_defs fp_arith sqrt_169 sqrt_25)
  have siblings: "vector3f_simd_length fp_sqrt
      (vector3f_simd_from_register \<lparr>f0 = Fin 3, f1 = Fin 4, f2 = Fin 0, f3 = Fin 12\<rparr>) = Fin 5"
    "vector3_reg_length fp_sqrt (vector3_reg_xyz (Fin 3) (Fin 4) (Fin 0)) = Fin 5"
    "vector3f_simd_dot
      (vector3f_simd_from_register \<lparr>f0 = Fin 3, f1 = Fin 4, f2 = Fin 0, f3 = Fin 12\<rparr>)
      (vector3f_simd_xyz (Fin 3) (Fin 4) (Fin 0)) = Fin 25"
    by (simp_all add: vector3f_simd_length_def vector3f_simd_dot_lanes mm_dp_ps_0x71
        mm_sqrt_ss_def mm_cvtss_f32_def vector3_reg_length_def vector3_reg_xyz_def
        vector3f_simd_from_register_def vector3f_simd_xyz_def mm_set_ps_def component_defs
        fp_arith sqrt_25)
  have path_d: "fst (vector3d_simd_insert3
      (vector3d_simd_op_assign vector3d_simd_default
         (snd (vector3d_simd_normalize fp_sqrt vector3d_simd_default)))
      (Fin 3) (Fin 4) (Fin 0) []) =
     \<lparr>d_mmvalue = \<lparr>d0 = Fin 3, d1 = Fin 4, d2 = Fin 0, d3 = NaN\<rparr>, d_been_inserted = 3\<rparr>"
    by (simp add: vector3d_simd_insert3_result vector3d_simd_op_assign_def
        vector3d_simd_normalize_result vector3d_simd_rlength_def vector3d_simd_length_lanes
        vector3d_simd_from_register_def vector3d_simd_default_def mm256_setzero_pd_def
        component_defs fp_arith)
  have path_f: "fst (vector3f_simd_insert3
      (vector3f_simd_op_assign vector3f_simd_default
         (snd (vector3f_simd_normalize fp_rsqrt vector3f_simd_default)))
      (Fin 3) (Fin 4) (Fin 0) []) =
     \<lparr>f_mmvalue = \<lparr>f0 = Fin 3, f1 = Fin 4, f2 = Fin 0, f3 = NaN\<rparr>, f_been_inserted = 3\<rparr>"
    by (simp add: vector3f_simd_insert3_result vector3f_simd_op_assign_def
        vector3f_simd_normalize_result vector3f_simd_rlength_lanes
        vector3f_simd_from_register_def vector3f_simd_default_def mm_setzero_ps_def
        component_defs fp_arith)
  have path_reg: "fst (vector3_reg_insert3
      (vector3_reg_op_assign vector3_reg_default
         (snd (vector3_reg_normalize fp_sqrt vector3_reg_default)))
      (Fin 3) (Fin 4) (Fin 0) []) =
     \<lparr>reg_x = Fin 3, reg_y = Fin 4, reg_z = Fin 0, reg_been_inserted = 3\<rparr>"
    by (simp add: vector3_reg_insert3_result vector3_reg_op_assign_def
        vector3_reg_normalize_result vector3_reg_xyz_def vector3_reg_default_def)
  have lengths: "vector3d_simd_length fp_sqrt
      \<lparr>d_mmvalue = \<lparr>d0 = Fin 3, d1 = Fin 4, d2 = Fin 0, d3 = NaN\<rparr>, d_been_inserted = 3\<rparr> = NaN"
    "vector3f_simd_length fp_sqrt
      \<lparr>f_mmvalue = \<lparr>f0 = Fin 3, f1 = Fin 4, f2 = Fin 0, f3 = NaN\<rparr>, f_been_inserted = 3\<rparr> = Fin 5"
    "vector3_reg_length fp_sqrt
      \<lparr>reg_x = Fin 3, reg_y = Fin 4, reg_z = Fin 0, reg_been_inserted = 3\<rparr> = Fin 5"
    by (simp_all add: vector3d_simd_length_lanes vector3f_simd_length_def mm_dp_ps_0x71
        mm_sqrt_ss_def mm_cvtss_f32_def vector3_reg_length_def component_defs fp_arith sqrt_25)
  show ?thesis
    using raw siblings path_d path_f path_reg lengths by simp
qed

section \<open>The comma initializer\<close>

text \<open>
  Claim C5: misuse of the comma initializer is reported and changes nothing, in every
  backend. \<^verbatim>\<open>operator,\<close> on a vector whose \<open>been_inserted\<close> is 0 appends the first
  message to \<^verbatim>\<open>std::cerr\<close> and returns the vector as it was; after \<^verbatim>\<open>v << a, b, c\<close> a
  further \<^verbatim>\<open>operator,\<close> appends the second message and returns the vector as the three
  insertions left it. The model is a total function: nothing is thrown.
\<close>

theorem comma_initializer_misuse_reported:
  "(reg_been_inserted v = 0 \<longrightarrow>
      vector3_reg_op_comma v e cerr = (v, cerr @ [bad_use_message]))
 \<and> (f_been_inserted p = 0 \<longrightarrow>
      vector3f_simd_op_comma p e cerr = (p, cerr @ [bad_use_message]))
 \<and> (d_been_inserted s = 0 \<longrightarrow>
      vector3d_simd_op_comma s e cerr = (s, cerr @ [bad_use_message]))
 \<and> (vector3_reg_insert3 v a b c cerr = (v3, cerr3) \<longrightarrow>
      vector3_reg_op_comma v3 e cerr3 = (v3, cerr3 @ [too_many_message]))
 \<and> (vector3f_simd_insert3 p a b c cerr = (p3, cerr3) \<longrightarrow>
      vector3f_simd_op_comma p3 e cerr3 = (p3, cerr3 @ [too_many_message]))
 \<and> (vector3d_simd_insert3 s a b c cerr = (s3, cerr3) \<longrightarrow>
      vector3d_simd_op_comma s3 e cerr3 = (s3, cerr3 @ [too_many_message]))"
  by (auto simp add: vector3_reg_insert3_result vector3f_simd_insert3_result
      vector3d_simd_insert3_result vector3_reg_op_comma_def vector3f_simd_op_comma_def
      vector3d_simd_op_comma_def)

theorem comma_initializer_misuse_reported_witness:
  "reg_been_inserted (vector3_reg_xyz (Fin 7) (Fin 8) (Fin 9)) = 0
 \<and> vector3_reg_op_comma (vector3_reg_xyz (Fin 7) (Fin 8) (Fin 9)) (Fin 4) [] =
     (vector3_reg_xyz (Fin 7) (Fin 8) (Fin 9), [bad_use_message])
 \<and> f_been_inserted (vector3f_simd_xyz (Fin 7) (Fin 8) (Fin 9)) = 0
 \<and> vector3f_simd_op_comma (vector3f_simd_xyz (Fin 7) (Fin 8) (Fin 9)) (Fin 4) [] =
     (vector3f_simd_xyz (Fin 7) (Fin 8) (Fin 9), [bad_use_message])
 \<and> d_been_inserted (vector3d_simd_xyz (Fin 7) (Fin 8) (Fin 9)) = 0
 \<and> vector3d_simd_op_comma (vector3d_simd_xyz (Fin 7) (Fin 8) (Fin 9)) (Fin 4) [] =
     (vector3d_simd_xyz (Fin 7) (Fin 8) (Fin 9), [bad_use_message])
 \<and> vector3_reg_insert3 (vector3_reg_xyz (Fin 7) (Fin 8) (Fin 9)) (Fin 1) (Fin 2) (Fin 3) [] =
     (\<lparr>reg_x = Fin 1, reg_y = Fin 2, reg_z = Fin 3, reg_been_inserted = 3\<rparr>, [])
 \<and> vector3_reg_op_comma
       \<lparr>reg_x = Fin 1, reg_y = Fin 2, reg_z = Fin 3, reg_been_inserted = 3\<rparr> (Fin 4) [] =
     (\<lparr>reg_x = Fin 1, reg_y = Fin 2, reg_z = Fin 3, reg_been_inserted = 3\<rparr>,
      [too_many_message])
 \<and> vector3f_simd_insert3 (vector3f_simd_xyz (Fin 7) (Fin 8) (Fin 9)) (Fin 1) (Fin 2) (Fin 3) [] =
     (\<lparr>f_mmvalue = \<lparr>f0 = Fin 1, f1 = Fin 2, f2 = Fin 3, f3 = Fin 0\<rparr>, f_been_inserted = 3\<rparr>, [])
 \<and> vector3f_simd_op_comma
       \<lparr>f_mmvalue = \<lparr>f0 = Fin 1, f1 = Fin 2, f2 = Fin 3, f3 = Fin 0\<rparr>, f_been_inserted = 3\<rparr>
       (Fin 4) [] =
     (\<lparr>f_mmvalue = \<lparr>f0 = Fin 1, f1 = Fin 2, f2 = Fin 3, f3 = Fin 0\<rparr>, f_been_inserted = 3\<rparr>,
      [too_many_message])
 \<and> vector3d_simd_insert3 (vector3d_simd_xyz (Fin 7) (Fin 8) (Fin 9)) (Fin 1) (Fin 2) (Fin 3) [] =
     (\<lparr>d_mmvalue = \<lparr>d0 = Fin 1, d1 = Fin 2, d2 = Fin 3, d3 = Fin 0\<rparr>, d_been_inserted = 3\<rparr>, [])
 \<and> vector3d_simd_op_comma
       \<lparr>d_mmvalue = \<lparr>d0 = Fin 1, d1 = Fin 2, d2 = Fin 3, d3 = Fin 0\<rparr>, d_been_inserted = 3\<rparr>
       (Fin 4) [] =
     (\<lparr>d_mmvalue = \<lparr>d0 = Fin 1, d1 = Fin 2, d2 = Fin 3, d3 = Fin 0\<rparr>, d_been_inserted = 3\<rparr>,
      [too_many_message])"
proof -
  have reg3: "vector3_reg_insert3 (vector3_reg_xyz (Fin 7) (Fin 8) (Fin 9)) (Fin 1) (Fin 2) (Fin 3) [] =
      (\<lparr>reg_x = Fin 1, reg_y = Fin 2, reg_z = Fin 3, reg_been_inserted = 3\<rparr>, [])"
    by (simp add: vector3_reg_insert3_result vector3_reg_xyz_def)
  have flt3: "vector3f_simd_insert3 (vector3f_simd_xyz (Fin 7) (Fin 8) (Fin 9)) (Fin 1) (Fin 2) (Fin 3) [] =
      (\<lparr>f_mmvalue = \<lparr>f0 = Fin 1, f1 = Fin 2, f2 = Fin 3, f3 = Fin 0\<rparr>, f_been_inserted = 3\<rparr>, [])"
    by (simp add: vector3f_simd_insert3_result vector3f_simd_xyz_def mm_set_ps_def zero_fp_def)
  have dbl3: "vector3d_simd_insert3 (vector3d_simd_xyz (Fin 7) (Fin 8) (Fin 9)) (Fin 1) (Fin 2) (Fin 3) [] =
      (\<lparr>d_mmvalue = \<lparr>d0 = Fin 1, d1 = Fin 2, d2 = Fin 3, d3 = Fin 0\<rparr>, d_been_inserted = 3\<rparr>, [])"
    by (simp add: vector3d_simd_insert3_result vector3d_simd_xyz_def mm256_set_pd_def zero_fp_def)
  have flags: "reg_been_inserted (vector3_reg_xyz (Fin 7) (Fin 8) (Fin 9)) = 0"
    "f_been_inserted (vector3f_simd_xyz (Fin 7) (Fin 8) (Fin 9)) = 0"
    "d_been_inserted (vector3d_simd_xyz (Fin 7) (Fin 8) (Fin 9)) = 0"
    by (simp_all add: vector3_reg_xyz_def vector3f_simd_xyz_def vector3d_simd_xyz_def)
  show ?thesis
    using comma_initializer_misuse_reported
      [where v = "vector3_reg_xyz (Fin 7) (Fin 8) (Fin 9)"
         and p = "vector3f_simd_xyz (Fin 7) (Fin 8) (Fin 9)"
         and s = "vector3d_simd_xyz (Fin 7) (Fin 8) (Fin 9)"
         and a = "Fin 1" and b = "Fin 2" and c = "Fin 3" and e = "Fin 4" and cerr = "[]"
         and ?v3.0 = "\<lparr>reg_x = Fin 1, reg_y = Fin 2, reg_z = Fin 3, reg_been_inserted = 3\<rparr>"
         and ?p3.0 = "\<lparr>f_mmvalue = \<lparr>f0 = Fin 1, f1 = Fin 2, f2 = Fin 3, f3 = Fin 0\<rparr>,
                      f_been_inserted = 3\<rparr>"
         and ?s3.0 = "\<lparr>d_mmvalue = \<lparr>d0 = Fin 1, d1 = Fin 2, d2 = Fin 3, d3 = Fin 0\<rparr>,
                      d_been_inserted = 3\<rparr>"
         and ?cerr3.0 = "[]"]
      reg3 flt3 dbl3 flags
    by simp
qed

text \<open>
  Claim C6: \<^verbatim>\<open>v << a, b, c\<close> leaves \<open>v\<close> with the components of the vector built by
  the three-argument constructor from \<open>a\<close>, \<open>b\<close>, \<open>c\<close>, in every backend and from every
  state of \<open>v\<close>; the claim's \<^verbatim>\<open>v << 1.0, 2.0, 3.0\<close> is the instance \<open>a = 1\<close>,
  \<open>b = 2\<close>, \<open>c = 3\<close>. \<open>x\<close> is written by \<^verbatim>\<open>operator<<\<close>, \<open>y\<close> by the first comma and
  \<open>z\<close> by the second, and nothing is written to \<^verbatim>\<open>std::cerr\<close>.
\<close>

theorem comma_initializer_three_values:
  "reg_x (fst (vector3_reg_insert3 v a b c cerr)) = reg_x (vector3_reg_xyz a b c)
 \<and> reg_y (fst (vector3_reg_insert3 v a b c cerr)) = reg_y (vector3_reg_xyz a b c)
 \<and> reg_z (fst (vector3_reg_insert3 v a b c cerr)) = reg_z (vector3_reg_xyz a b c)
 \<and> snd (vector3_reg_insert3 v a b c cerr) = cerr
 \<and> f_x (fst (vector3f_simd_insert3 p a b c cerr)) = f_x (vector3f_simd_xyz a b c)
 \<and> f_y (fst (vector3f_simd_insert3 p a b c cerr)) = f_y (vector3f_simd_xyz a b c)
 \<and> f_z (fst (vector3f_simd_insert3 p a b c cerr)) = f_z (vector3f_simd_xyz a b c)
 \<and> snd (vector3f_simd_insert3 p a b c cerr) = cerr
 \<and> d_x (fst (vector3d_simd_insert3 s a b c cerr)) = d_x (vector3d_simd_xyz a b c)
 \<and> d_y (fst (vector3d_simd_insert3 s a b c cerr)) = d_y (vector3d_simd_xyz a b c)
 \<and> d_z (fst (vector3d_simd_insert3 s a b c cerr)) = d_z (vector3d_simd_xyz a b c)
 \<and> snd (vector3d_simd_insert3 s a b c cerr) = cerr
 \<and> reg_x (vector3_reg_xyz a b c) = a \<and> reg_y (vector3_reg_xyz a b c) = b
 \<and> reg_z (vector3_reg_xyz a b c) = c
 \<and> f_x (vector3f_simd_xyz a b c) = a \<and> f_y (vector3f_simd_xyz a b c) = b
 \<and> f_z (vector3f_simd_xyz a b c) = c
 \<and> d_x (vector3d_simd_xyz a b c) = a \<and> d_y (vector3d_simd_xyz a b c) = b
 \<and> d_z (vector3d_simd_xyz a b c) = c"
  by (simp add: vector3_reg_insert3_result vector3f_simd_insert3_result
      vector3d_simd_insert3_result vector3_reg_xyz_def vector3f_simd_xyz_def
      vector3d_simd_xyz_def mm_set_ps_def mm256_set_pd_def component_defs)

text \<open>The statement \<^verbatim>\<open>v << 1.0, 2.0, 3.0\<close> on a default vector and on a vector
  whose padding lane holds NaN.\<close>

theorem comma_initializer_three_values_witness:
  "fst (vector3_reg_insert3 vector3_reg_default (Fin 1) (Fin 2) (Fin 3) []) =
     \<lparr>reg_x = Fin 1, reg_y = Fin 2, reg_z = Fin 3, reg_been_inserted = 3\<rparr>
 \<and> reg_x (vector3_reg_xyz (Fin 1) (Fin 2) (Fin 3)) = Fin 1
 \<and> reg_y (vector3_reg_xyz (Fin 1) (Fin 2) (Fin 3)) = Fin 2
 \<and> reg_z (vector3_reg_xyz (Fin 1) (Fin 2) (Fin 3)) = Fin 3
 \<and> fst (vector3f_simd_insert3
      (vector3f_simd_from_register \<lparr>f0 = Fin 7, f1 = Fin 8, f2 = Fin 9, f3 = NaN\<rparr>)
      (Fin 1) (Fin 2) (Fin 3) []) =
     \<lparr>f_mmvalue = \<lparr>f0 = Fin 1, f1 = Fin 2, f2 = Fin 3, f3 = NaN\<rparr>, f_been_inserted = 3\<rparr>
 \<and> f_x (vector3f_simd_xyz (Fin 1) (Fin 2) (Fin 3)) = Fin 1
 \<and> f_y (vector3f_simd_xyz (Fin 1) (Fin 2) (Fin 3)) = Fin 2
 \<and> f_z (vector3f_simd_xyz (Fin 1) (Fin 2) (Fin 3)) = Fin 3
 \<and> fst (vector3d_simd_insert3 vector3d_simd_default (Fin 1) (Fin 2) (Fin 3) []) =
     \<lparr>d_mmvalue = \<lparr>d0 = Fin 1, d1 = Fin 2, d2 = Fin 3, d3 = Fin 0\<rparr>, d_been_inserted = 3\<rparr>
 \<and> d_x (vector3d_simd_xyz (Fin 1) (Fin 2) (Fin 3)) = Fin 1
 \<and> d_y (vector3d_simd_xyz (Fin 1) (Fin 2) (Fin 3)) = Fin 2
 \<and> d_z (vector3d_simd_xyz (Fin 1) (Fin 2) (Fin 3)) = Fin 3"
  using comma_initializer_three_values
    [where v = "vector3_reg_default"
       and p = "vector3f_simd_from_register \<lparr>f0 = Fin 7, f1 = Fin 8, f2 = Fin 9, f3 = NaN\<rparr>"
       and s = "vector3d_simd_default"
       and a = "Fin 1" and b = "Fin 2" and c = "Fin 3" and cerr = "[]"]
  by (simp add: vector3_reg_insert3_result vector3f_simd_insert3_result
      vector3d_simd_insert3_result vector3_reg_default_def vector3d_simd_default_def
      vector3f_simd_from_register_def mm256_setzero_pd_def zero_fp_def)

section \<open>Cross product\<close>

text \<open>
  Claim C7: in every backend the components of \<open>v.cross(o)\<close> are
  \<open>(y * o.z - z * o.y, z * o.x - x * o.z, x * o.y - y * o.x)\<close>, for every element
  arithmetic; the SIMD classes reach them through the two lane permutations. In
  particular \<open>(1, 0, 0).cross((0, 1, 0))\<close> has the components \<open>(0, 0, 1)\<close> in the three
  backends.
\<close>

theorem cross_product_components:
  "reg_x (vector3_reg_cross v w) = reg_y v * reg_z w - reg_z v * reg_y w
 \<and> reg_y (vector3_reg_cross v w) = reg_z v * reg_x w - reg_x v * reg_z w
 \<and> reg_z (vector3_reg_cross v w) = reg_x v * reg_y w - reg_y v * reg_x w
 \<and> f_x (vector3f_simd_cross p q) = f_y p * f_z q - f_z p * f_y q
 \<and> f_y (vector3f_simd_cross p q) = f_z p * f_x q - f_x p * f_z q
 \<and> f_z (vector3f_simd_cross p q) = f_x p * f_y q - f_y p * f_x q
 \<and> d_x (vector3d_simd_cross s t) = d_y s * d_z t - d_z s * d_y t
 \<and> d_y (vector3d_simd_cross s t) = d_z s * d_x t - d_x s * d_z t
 \<and> d_z (vector3d_simd_cross s t) = d_x s * d_y t - d_y s * d_x t
 \<and> reg_x (vector3_reg_cross (vector3_reg_xyz (Fin 1) (Fin 0) (Fin 0))
                             (vector3_reg_xyz (Fin 0) (Fin 1) (Fin 0))) = Fin 0
 \<and> reg_y (vector3_reg_cross (vector3_reg_xyz (Fin 1) (Fin 0) (Fin 0))
                             (vector3_reg_xyz (Fin 0) (Fin 1) (Fin 0))) = Fin 0
 \<and> reg_z (vector3_reg_cross (vector3_reg_xyz (Fin 1) (Fin 0) (Fin 0))
                             (vector3_reg_xyz (Fin 0) (Fin 1) (Fin 0))) = Fin 1
 \<and> f_x (vector3f_simd_cross (vector3f_simd_xyz (Fin 1) (Fin 0) (Fin 0))
                             (vector3f_simd_xyz (Fin 0) (Fin 1) (Fin 0))) = Fin 0
 \<and> f_y (vector3f_simd_cross (vector3f_simd_xyz (Fin 1) (Fin 0) (Fin 0))
                             (vector3f_simd_xyz (Fin 0) (Fin 1) (Fin 0))) = Fin 0
 \<and> f_z (vector3f_simd_cross (vector3f_simd_xyz (Fin 1) (Fin 0) (Fin 0))
                             (vector3f_simd_xyz (Fin 0) (Fin 1) (Fin 0))) = Fin 1
 \<and> d_x (vector3d_simd_cross (vector3d_simd_xyz (Fin 1) (Fin 0) (Fin 0))
                             (vector3d_simd_xyz (Fin 0) (Fin 1) (Fin 0))) = Fin 0
 \<and> d_y (vector3d_simd_cross (vector3d_simd_xyz (Fin 1) (Fin 0) (Fin 0))
                             (vector3d_simd_xyz (Fin 0) (Fin 1) (Fin 0))) = Fin 0
 \<and> d_z (vector3d_simd_cross (vector3d_simd_xyz (Fin 1) (Fin 0) (Fin 0))
                             (vector3d_simd_xyz (Fin 0) (Fin 1) (Fin 0))) = Fin 1"
  by (simp add: vector3_reg_cross_def vector3_reg_xyz_def vector3f_simd_cross_register
      vector3d_simd_cross_register component_defs vector3f_simd_xyz_def
      vector3d_simd_xyz_def mm_set_ps_def mm256_set_pd_def fp_arith)

section \<open>Construction\<close>

text \<open>
  Claim C8: every normal construction, copy construction included, leaves
  \<open>been_inserted\<close> at 0 in every backend. The copy constructor of the scalar class
  resets it. The SIMD classes declare no copy constructor, and the implicit one copies
  the flag: after \<^verbatim>\<open>v << 1\<close> on a default vector, the copy of \<open>v\<close> has flag 0 in the
  scalar class and flag 1 in the SIMD classes, so that a comma on the copy is reported
  in the scalar class and silently writes \<open>y\<close> in the single-precision class.
\<close>

theorem simd_copy_keeps_been_inserted:
  "reg_been_inserted (vector3_reg_copy (vector3_reg_op_insert vector3_reg_default (Fin 1))) = 0
 \<and> f_been_inserted
     (vector3f_simd_copy (vector3f_simd_op_insert vector3f_simd_default (Fin 1))) = 1
 \<and> d_been_inserted
     (vector3d_simd_copy (vector3d_simd_op_insert vector3d_simd_default (Fin 1))) = 1
 \<and> vector3_reg_op_comma
     (vector3_reg_copy (vector3_reg_op_insert vector3_reg_default (Fin 1))) (Fin 2) [] =
     (\<lparr>reg_x = Fin 1, reg_y = Fin 0, reg_z = Fin 0, reg_been_inserted = 0\<rparr>, [bad_use_message])
 \<and> vector3f_simd_op_comma
     (vector3f_simd_copy (vector3f_simd_op_insert vector3f_simd_default (Fin 1))) (Fin 2) [] =
     (\<lparr>f_mmvalue = \<lparr>f0 = Fin 1, f1 = Fin 2, f2 = Fin 0, f3 = Fin 0\<rparr>, f_been_inserted = 2\<rparr>, [])"
  by (simp add: vector3_reg_copy_def vector3f_simd_copy_def vector3d_simd_copy_def
      vector3_reg_op_insert_def vector3f_simd_op_insert_def vector3d_simd_op_insert_def
      vector3_reg_default_def vector3f_simd_default_def vector3d_simd_default_def
      vector3_reg_op_comma_def vector3f_simd_op_comma_def component_update_defs
      mm_setzero_ps_def mm256_setzero_pd_def fp_arith)

section \<open>Normalization\<close>

text \<open>
  Claim C9: in every backend \<open>normalize()\<close> leaves the receiver as it was and returns
  the receiver scaled by the reciprocal of its length. The receiver is left as it was
  in the three classes. The vector returned by the double-precision class is scaled by
  the reciprocal of \<open>length()\<close>, which counts the padding lane (claim C4): for the
  register \<open>(2, 2, 2, 2)\<close> the sum of the squares of \<open>x\<close>, \<open>y\<close>, \<open>z\<close> is 12, as the dot
  products of the scalar and of the single-precision class return it, but the
  double-precision \<open>length()\<close> is \<open>sqrt 16 = 4\<close> and every component of the result is
  \<open>2 * (1 / 4) = 1 / 2\<close>, a vector of squared length \<open>3 / 4\<close>. Without a raw
  register: after \<^verbatim>\<open>v = v.normalize(); v << 0, 0, 2;\<close> on a default vector,
  \<open>normalize()\<close> returns \<open>(0, 0, 1)\<close> in the scalar class and NaN in every component in
  the double-precision class.
\<close>

theorem vector3d_simd_normalize_reads_padding:
  "fst (vector3d_simd_normalize fp_sqrt
      (vector3d_simd_from_register \<lparr>d0 = Fin 2, d1 = Fin 2, d2 = Fin 2, d3 = Fin 2\<rparr>)) =
     vector3d_simd_from_register \<lparr>d0 = Fin 2, d1 = Fin 2, d2 = Fin 2, d3 = Fin 2\<rparr>
 \<and> vector3d_simd_length fp_sqrt
     (vector3d_simd_from_register \<lparr>d0 = Fin 2, d1 = Fin 2, d2 = Fin 2, d3 = Fin 2\<rparr>) = Fin 4
 \<and> d_x (snd (vector3d_simd_normalize fp_sqrt
      (vector3d_simd_from_register \<lparr>d0 = Fin 2, d1 = Fin 2, d2 = Fin 2, d3 = Fin 2\<rparr>))) =
     Fin (1 / 2)
 \<and> d_y (snd (vector3d_simd_normalize fp_sqrt
      (vector3d_simd_from_register \<lparr>d0 = Fin 2, d1 = Fin 2, d2 = Fin 2, d3 = Fin 2\<rparr>))) =
     Fin (1 / 2)
 \<and> d_z (snd (vector3d_simd_normalize fp_sqrt
      (vector3d_simd_from_register \<lparr>d0 = Fin 2, d1 = Fin 2, d2 = Fin 2, d3 = Fin 2\<rparr>))) =
     Fin (1 / 2)
 \<and> vector3_reg_dot (vector3_reg_xyz (Fin 2) (Fin 2) (Fin 2))
                   (vector3_reg_xyz (Fin 2) (Fin 2) (Fin 2)) = Fin 12
 \<and> vector3f_simd_dot
     (vector3f_simd_from_register \<lparr>f0 = Fin 2, f1 = Fin 2, f2 = Fin 2, f3 = Fin 2\<rparr>)
     (vector3f_simd_from_register \<lparr>f0 = Fin 2, f1 = Fin 2, f2 = Fin 2, f3 = Fin 2\<rparr>) = Fin 12
 \<and> vector3_reg_dot (vector3_reg_xyz (Fin (1 / 2)) (Fin (1 / 2)) (Fin (1 / 2)))
                   (vector3_reg_xyz (Fin (1 / 2)) (Fin (1 / 2)) (Fin (1 / 2))) = Fin (3 / 4)
 \<and> fst (vector3d_simd_insert3
      (vector3d_simd_op_assign vector3d_simd_default
         (snd (vector3d_simd_normalize fp_sqrt vector3d_simd_default)))
      (Fin 0) (Fin 0) (Fin 2) []) =
     \<lparr>d_mmvalue = \<lparr>d0 = Fin 0, d1 = Fin 0, d2 = Fin 2, d3 = NaN\<rparr>, d_been_inserted = 3\<rparr>
 \<and> vector3d_simd_normalize fp_sqrt
     \<lparr>d_mmvalue = \<lparr>d0 = Fin 0, d1 = Fin 0, d2 = Fin 2, d3 = NaN\<rparr>, d_been_inserted = 3\<rparr> =
     (\<lparr>d_mmvalue = \<lparr>d0 = Fin 0, d1 = Fin 0, d2 = Fin 2, d3 = NaN\<rparr>, d_been_inserted = 3\<rparr>,
      \<lparr>d_mmvalue = \<lparr>d0 = NaN, d1 = NaN, d2 = NaN, d3 = NaN\<rparr>, d_been_inserted = 0\<rparr>)
 \<and> fst (vector3_reg_insert3
      (vector3_reg_op_assign vector3_reg_default
         (snd (vector3_reg_normalize fp_sqrt vector3_reg_default)))
      (Fin 0) (Fin 0) (Fin 2) []) =
     \<lparr>reg_x = Fin 0, reg_y = Fin 0, reg_z = Fin 2, reg_been_inserted = 3\<rparr>
 \<and> vector3_reg_normalize fp_sqrt
     \<lparr>reg_x = Fin 0, reg_y = Fin 0, reg_z = Fin 2, reg_been_inserted = 3\<rparr> =
     (\<lparr>reg_x = Fin 0, reg_y = Fin 0, reg_z = Fin 2, reg_been_inserted = 3\<rparr>,
      \<lparr>reg_x = Fin 0, reg_y = Fin 0, reg_z = Fin 1, reg_been_inserted = 0\<rparr>)"
proof -
  have sqrt_16: "sqrt 16 = 4"
    by (rule real_sqrt_unique) simp_all
  have len: "vector3d_simd_length fp_sqrt
      (vector3d_simd_from_register \<lparr>d0 = Fin 2, d1 = Fin 2, d2 = Fin 2, d3 = Fin 2\<rparr>) = Fin 4"
    by (simp add: vector3d_simd_length_lanes vector3d_simd_from_register_def component_defs
        fp_arith sqrt_16)
  have raw: "vector3d_simd_normalize fp_sqrt
      (vector3d_simd_from_register \<lparr>d0 = Fin 2, d1 = Fin 2, d2 = Fin 2, d3 = Fin 2\<rparr>) =
     (vector3d_simd_from_register \<lparr>d0 = Fin 2, d1 = Fin 2, d2 = Fin 2, d3 = Fin 2\<rparr>,
      vector3d_simd_from_register
        \<lparr>d0 = Fin (1 / 2), d1 = Fin (1 / 2), d2 = Fin (1 / 2), d3 = Fin (1 / 2)\<rparr>)"
    by (simp add: vector3d_simd_normalize_result vector3d_simd_rlength_def len)
       (simp add: vector3d_simd_from_register_def component_defs fp_arith)
  have sums: "vector3_reg_dot (vector3_reg_xyz (Fin 2) (Fin 2) (Fin 2))
                   (vector3_reg_xyz (Fin 2) (Fin 2) (Fin 2)) = Fin 12"
    "vector3f_simd_dot
      (vector3f_simd_from_register \<lparr>f0 = Fin 2, f1 = Fin 2, f2 = Fin 2, f3 = Fin 2\<rparr>)
      (vector3f_simd_from_register \<lparr>f0 = Fin 2, f1 = Fin 2, f2 = Fin 2, f3 = Fin 2\<rparr>) = Fin 12"
    "vector3_reg_dot (vector3_reg_xyz (Fin (1 / 2)) (Fin (1 / 2)) (Fin (1 / 2)))
                   (vector3_reg_xyz (Fin (1 / 2)) (Fin (1 / 2)) (Fin (1 / 2))) = Fin (3 / 4)"
    by (simp_all add: vector3_reg_dot_def vector3_reg_xyz_def vector3f_simd_dot_lanes
        vector3f_simd_from_register_def component_defs fp_arith)
  have path_d: "fst (vector3d_simd_insert3
      (vector3d_simd_op_assign vector3d_simd_default
         (snd (vector3d_simd_normalize fp_sqrt vector3d_simd_default)))
      (Fin 0) (Fin 0) (Fin 2) []) =
     \<lparr>d_mmvalue = \<lparr>d0 = Fin 0, d1 = Fin 0, d2 = Fin 2, d3 = NaN\<rparr>, d_been_inserted = 3\<rparr>"
    by (simp add: vector3d_simd_insert3_result vector3d_simd_op_assign_def
        vector3d_simd_normalize_result vector3d_simd_rlength_def vector3d_simd_length_lanes
        vector3d_simd_from_register_def vector3d_simd_default_def mm256_setzero_pd_def
        component_defs fp_arith)
  have norm_d: "vector3d_simd_normalize fp_sqrt
     \<lparr>d_mmvalue = \<lparr>d0 = Fin 0, d1 = Fin 0, d2 = Fin 2, d3 = NaN\<rparr>, d_been_inserted = 3\<rparr> =
     (\<lparr>d_mmvalue = \<lparr>d0 = Fin 0, d1 = Fin 0, d2 = Fin 2, d3 = NaN\<rparr>, d_been_inserted = 3\<rparr>,
      \<lparr>d_mmvalue = \<lparr>d0 = NaN, d1 = NaN, d2 = NaN, d3 = NaN\<rparr>, d_been_inserted = 0\<rparr>)"
    by (simp add: vector3d_simd_normalize_result vector3d_simd_rlength_def
        vector3d_simd_length_lanes vector3d_simd_from_register_def component_defs fp_arith)
  have path_reg: "fst (vector3_reg_insert3
      (vector3_reg_op_assign vector3_reg_default
         (snd (vector3_reg_normalize fp_sqrt vector3_reg_default)))
      (Fin 0) (Fin 0) (Fin 2) []) =
     \<lparr>reg_x = Fin 0, reg_y = Fin 0, reg_z = Fin 2, reg_been_inserted = 3\<rparr>"
    by (simp add: vector3_reg_insert3_result vector3_reg_op_assign_def
        vector3_reg_normalize_result vector3_reg_xyz_def vector3_reg_default_def)
  have norm_reg: "vector3_reg_normalize fp_sqrt
     \<lparr>reg_x = Fin 0, reg_y = Fin 0, reg_z = Fin 2, reg_been_inserted = 3\<rparr> =
     (\<lparr>reg_x = Fin 0, reg_y = Fin 0, reg_z = Fin 2, reg_been_inserted = 3\<rparr>,
      \<lparr>reg_x = Fin 0, reg_y = Fin 0, reg_z = Fin 1, reg_been_inserted = 0\<rparr>)"
    by (simp add: vector3_reg_normalize_result vector3_reg_length_def vector3_reg_xyz_def
        fp_arith)
  show ?thesis
    using len raw sums path_d norm_d path_reg norm_reg
    by (simp add: vector3d_simd_from_register_def component_defs)
qed

section \<open>Reading from a stream\<close>

text \<open>
  Claim C10: \<^verbatim>\<open>operator>>\<close> assigns \<open>x\<close>, \<open>y\<close>, \<open>z\<close> and nothing else. Whatever the
  stream holds, \<open>been_inserted\<close> is left as it was in the three backends and the padding
  lane of the SIMD classes keeps its value; and when the stream is good and starts with
  three numbers, these become \<open>x\<close>, \<open>y\<close>, \<open>z\<close> in this order and are consumed.
\<close>

theorem stream_extract_frame:
  "reg_been_inserted (snd (vector3_reg_op_extract input v)) = reg_been_inserted v
 \<and> f_been_inserted (snd (vector3f_simd_op_extract input p)) = f_been_inserted p
 \<and> f3 (f_mmvalue (snd (vector3f_simd_op_extract input p))) = f3 (f_mmvalue p)
 \<and> d_been_inserted (snd (vector3d_simd_op_extract input s)) = d_been_inserted s
 \<and> d3 (d_mmvalue (snd (vector3d_simd_op_extract input s))) = d3 (d_mmvalue s)
 \<and> (\<not> failbit input \<and> tokens input = Some a # Some b # Some c # rest \<longrightarrow>
      vector3_reg_op_extract input v =
        (input\<lparr>tokens := rest\<rparr>, v\<lparr>reg_x := a, reg_y := b, reg_z := c\<rparr>)
    \<and> vector3f_simd_op_extract input p =
        (input\<lparr>tokens := rest\<rparr>,
         p\<lparr>f_mmvalue := \<lparr>f0 = a, f1 = b, f2 = c, f3 = f3 (f_mmvalue p)\<rparr>\<rparr>)
    \<and> vector3d_simd_op_extract input s =
        (input\<lparr>tokens := rest\<rparr>,
         s\<lparr>d_mmvalue := \<lparr>d0 = a, d1 = b, d2 = c, d3 = d3 (d_mmvalue s)\<rparr>\<rparr>))"
  by (simp add: vector3_reg_op_extract_def vector3f_simd_op_extract_def
      vector3d_simd_op_extract_def component_defs component_update_defs
      istream_extract_def Let_def split: prod.splits list.splits option.splits)

theorem stream_extract_frame_witness:
  "\<not> failbit \<lparr>tokens = [Some (Fin 1), Some (Fin 2), Some (Fin 3), None], failbit = False\<rparr>
 \<and> vector3_reg_op_extract
      \<lparr>tokens = [Some (Fin 1), Some (Fin 2), Some (Fin 3), None], failbit = False\<rparr>
      \<lparr>reg_x = Fin 7, reg_y = Fin 8, reg_z = Fin 9, reg_been_inserted = 2\<rparr> =
     (\<lparr>tokens = [None], failbit = False\<rparr>,
      \<lparr>reg_x = Fin 1, reg_y = Fin 2, reg_z = Fin 3, reg_been_inserted = 2\<rparr>)
 \<and> vector3f_simd_op_extract
      \<lparr>tokens = [Some (Fin 1), Some (Fin 2), Some (Fin 3), None], failbit = False\<rparr>
      \<lparr>f_mmvalue = \<lparr>f0 = Fin 7, f1 = Fin 8, f2 = Fin 9, f3 = NaN\<rparr>, f_been_inserted = 2\<rparr> =
     (\<lparr>tokens = [None], failbit = False\<rparr>,
      \<lparr>f_mmvalue = \<lparr>f0 = Fin 1, f1 = Fin 2, f2 = Fin 3, f3 = NaN\<rparr>, f_been_inserted = 2\<rparr>)
 \<and> vector3d_simd_op_extract
      \<lparr>tokens = [Some (Fin 1), Some (Fin 2), Some (Fin 3), None], failbit = False\<rparr>
      \<lparr>d_mmvalue = \<lparr>d0 = Fin 7, d1 = Fin 8, d2 = Fin 9, d3 = Fin 5\<rparr>, d_been_inserted = 2\<rparr> =
     (\<lparr>tokens = [None], failbit = False\<rparr>,
      \<lparr>d_mmvalue = \<lparr>d0 = Fin 1, d1 = Fin 2, d2 = Fin 3, d3 = Fin 5\<rparr>, d_been_inserted = 2\<rparr>)"
  using stream_extract_frame
    [where input = "\<lparr>tokens = [Some (Fin 1), Some (Fin 2), Some (Fin 3), None], failbit = False\<rparr>"
       and a = "Fin 1" and b = "Fin 2" and c = "Fin 3" and rest = "[None]"
       and v = "\<lparr>reg_x = Fin 7, reg_y = Fin 8, reg_z = Fin 9, reg_been_inserted = 2\<rparr>"
       and p = "\<lparr>f_mmvalue = \<lparr>f0 = Fin 7, f1 = Fin 8, f2 = Fin 9, f3 = NaN\<rparr>,
                 f_been_inserted = 2\<rparr>"
       and s = "\<lparr>d_mmvalue = \<lparr>d0 = Fin 7, d1 = Fin 8, d2 = Fin 9, d3 = Fin 5\<rparr>,
                 d_been_inserted = 2\<rparr>"]
  by simp

end
